theory Spec2Isabelle
  imports
    Complex_Main
    "HOL-Library.Char_ord"
    "HOL-Library.List_Lexorder"
    "HOL-Library.Product_Lexorder"
    "HOL-Library.Multiset"
begin

section \<open>Data model\<close>

text \<open>
  The pipeline works on pandas frames. A frame is embedded as the list of its rows, in
  row order; a row is a record with one field per column that the code reads or writes.
  \<^item> \<open>claim\<close> is one row of the frame that \<^verbatim>\<open>pd.read_csv\<close> makes of
    \<^verbatim>\<open>data/raw/claims_data.csv\<close>. The identifiers and the specialty are strings,
    \<open>claim_amount\<close> is a float64 number, \<open>claim_date\<close> is the calendar day that
    \<^verbatim>\<open>pd.to_datetime\<close> yields, counted in days, so that \<^verbatim>\<open>date - pd.Timedelta(days=7)\<close>
    is \<open>d - 7\<close>. These columns are taken as complete: a claim without identifier, amount
    or date is not a value of the record.
  \<^item> The two code columns are the ones on which the code calls string methods. A value
    of such a column is a \<open>cell\<close>: a Python string, or an object that is not a string.
    \<^verbatim>\<open>read_csv\<close> yields the float NaN for an empty field and for the texts it takes as
    missing (\<open>na_values\<close>), and numbers when it parses the whole column as numeric.
  \<^item> \<open>erow\<close> is one row of the frame after \<^verbatim>\<open>FraudETLPipeline.transform\<close>. The calendar
    columns \<^verbatim>\<open>day_of_week\<close>, \<^verbatim>\<open>is_weekend\<close> and \<^verbatim>\<open>month\<close> are read by no rule and by no
    other column; they are left out of the record.
  \<^item> The values a float column can hold besides numbers are kept apart in \<open>fval\<close>: the
    undefined value \<open>NaN\<close> (pandas' missing value) and the two infinities, which is
    what a division by zero produces.
\<close>

datatype fval = Fin real | PInf | NInf | NaN

datatype cell = Text string | NotText

datatype error = ValueError | KeyError | AttributeError

definition na_values :: "string list" where
  "na_values =
     ['''', ''#N/A'', ''#N/A N/A'', ''#NA'', ''-1.#IND'', ''-1.#QNAN'', ''-NaN'', ''-nan'',
      ''1.#IND'', ''1.#QNAN'', ''<NA>'', ''N/A'', ''NA'', ''NULL'', ''NaN'', ''None'', ''n/a'',
      ''nan'', ''null'']"

definition read_cell :: "string \<Rightarrow> cell" where
  "read_cell field = (if field \<in> set na_values then NotText else Text field)"

record claim =
  claim_id :: string
  patient_id :: string
  provider_id :: string
  provider_specialty :: string
  procedure_code :: cell
  diagnosis_code :: cell
  claim_amount :: real
  claim_date :: int
  status :: string
  is_fraud :: bool

record erow = claim +
  provider_avg_amount :: real
  provider_total_claims :: int
  specialty_avg_amount :: real
  specialty_std_amount :: fval
  amount_zscore :: fval
  is_provider_outlier :: bool
  patient_claims_7d :: int
  patient_claims_30d :: int
  same_day_claim_count :: int
  is_code_mismatch :: bool
  duplicate_count :: int
  is_duplicate :: bool
  is_high_amount :: bool
  is_surgery :: bool
  same_day_surgeries :: bool

text \<open>
  The text of an explanation is an f-string over the row; its content is kept as a
  value that carries the numbers the f-string prints, the rendering is not modelled.
\<close>

datatype explanation =
    NoExplanation
  | DuplicateClaim string int
  | AmountSigma real fval
  | HighAmount real
  | CodeMismatch cell cell
  | Claims7d int
  | Claims30d int
  | ProviderBills real real real
  | SameDaySurgeries int
  | SurgicalClaims7d int

record assessment =
  a_claim_id :: string
  fraud_detected :: bool
  fraud_score :: int
  rules_triggered :: string
  explanation :: "explanation list"
  actual_fraud :: bool

section \<open>Rule evaluator (src/fraud/rules.py)\<close>

text \<open>
  \<^verbatim>\<open>abs(z) > 3\<close> on a float: an infinity is greater than 3, and every comparison with
  NaN is false.
\<close>

fun abs_gt :: "fval \<Rightarrow> real \<Rightarrow> bool" where
  "abs_gt (Fin z) b = (\<bar>z\<bar> > b)"
| "abs_gt PInf b = True"
| "abs_gt NInf b = True"
| "abs_gt NaN b = False"

definition rule_duplicate_claims :: "erow \<Rightarrow> bool \<times> explanation" where
  "rule_duplicate_claims row =
     (if duplicate_count row > 1 then (True, DuplicateClaim (claim_id row) (duplicate_count row))
      else (False, NoExplanation))"

definition rule_amount_anomaly :: "erow \<Rightarrow> bool \<times> explanation" where
  "rule_amount_anomaly row =
     (if abs_gt (amount_zscore row) 3 then (True, AmountSigma (claim_amount row) (amount_zscore row))
      else if is_high_amount row then (True, HighAmount (claim_amount row))
      else (False, NoExplanation))"

definition rule_code_mismatch :: "erow \<Rightarrow> bool \<times> explanation" where
  "rule_code_mismatch row =
     (if is_code_mismatch row then (True, CodeMismatch (procedure_code row) (diagnosis_code row))
      else (False, NoExplanation))"

definition rule_velocity_fraud :: "erow \<Rightarrow> bool \<times> explanation" where
  "rule_velocity_fraud row =
     (if patient_claims_7d row \<ge> 5 then (True, Claims7d (patient_claims_7d row))
      else if patient_claims_30d row \<ge> 10 then (True, Claims30d (patient_claims_30d row))
      else (False, NoExplanation))"

definition rule_provider_outlier :: "erow \<Rightarrow> bool \<times> explanation" where
  "rule_provider_outlier row =
     (if is_provider_outlier row then
        (let provider_avg = provider_avg_amount row;
             specialty_avg = specialty_avg_amount row;
             ratio = (if specialty_avg > 0 then provider_avg / specialty_avg else 0)
         in (True, ProviderBills provider_avg specialty_avg ratio))
      else (False, NoExplanation))"

definition rule_impossible_scenario :: "erow \<Rightarrow> bool \<times> explanation" where
  "rule_impossible_scenario row =
     (if same_day_surgeries row then (True, SameDaySurgeries (same_day_claim_count row))
      else if is_surgery row \<and> patient_claims_7d row \<ge> 3
        then (True, SurgicalClaims7d (patient_claims_7d row))
      else (False, NoExplanation))"

text \<open>
  The body of the loop of \<^verbatim>\<open>run_all_rules\<close> keeps three accumulators, \<^verbatim>\<open>fraud_flags\<close>,
  \<^verbatim>\<open>fraud_score\<close> and \<^verbatim>\<open>explanations\<close>. \<open>apply_rule\<close> is one of its six blocks
  \<^verbatim>\<open>is_fraud, explanation = rule(row); if is_fraud: append, add, append\<close>.
\<close>

type_synonym accum = "string list \<times> int \<times> explanation list"

definition apply_rule :: "string \<Rightarrow> int \<Rightarrow> bool \<times> explanation \<Rightarrow> accum \<Rightarrow> accum" where
  "apply_rule label w res acc =
     (case res of (fired, expl) \<Rightarrow>
        (case acc of (fraud_flags, score, explanations) \<Rightarrow>
           if fired then (fraud_flags @ [label], score + w, explanations @ [expl])
           else acc))"

definition evaluate :: "erow \<Rightarrow> accum" where
  "evaluate row =
     apply_rule ''IMPOSSIBLE_SCENARIO'' 30 (rule_impossible_scenario row)
      (apply_rule ''PROVIDER_OUTLIER'' 15 (rule_provider_outlier row)
        (apply_rule ''VELOCITY_FRAUD'' 20 (rule_velocity_fraud row)
          (apply_rule ''CODE_MISMATCH'' 15 (rule_code_mismatch row)
            (apply_rule ''AMOUNT_ANOMALY'' 25 (rule_amount_anomaly row)
              (apply_rule ''DUPLICATE'' 20 (rule_duplicate_claims row)
                ([], 0, []))))))"

text \<open>Python's \<^verbatim>\<open>sep.join(parts)\<close>.\<close>

fun join :: "string \<Rightarrow> string list \<Rightarrow> string" where
  "join sep [] = []"
| "join sep [t] = t"
| "join sep (t # u # ts) = t @ sep @ join sep (u # ts)"

definition assess :: "erow \<Rightarrow> assessment" where
  "assess row =
     (case evaluate row of (fraud_flags, score, explanations) \<Rightarrow>
        \<lparr> a_claim_id = claim_id row,
          fraud_detected = (length fraud_flags > 0),
          fraud_score = min score 100,
          rules_triggered = (if fraud_flags \<noteq> [] then join '', '' fraud_flags else ''NONE''),
          explanation = explanations,
          actual_fraud = is_fraud row \<rparr>)"

text \<open>
  \<^verbatim>\<open>for idx, row in self.df.iterrows(): ... results.append({...})\<close>, then
  \<^verbatim>\<open>results_df = pd.DataFrame(results)\<close>, \<^verbatim>\<open>_print_summary\<close> and \<^verbatim>\<open>_save_results\<close>.
  With no row at all, \<^verbatim>\<open>pd.DataFrame([])\<close> has no column and the first statement of
  \<^verbatim>\<open>_print_summary\<close> that reads one, \<^verbatim>\<open>results_df['fraud_detected']\<close>, raises KeyError
  before anything is saved. With at least one row the summary divides by the positive
  row count only, and the table \<^verbatim>\<open>fraud_flags\<close> is replaced by \<^verbatim>\<open>results_df\<close>, which is
  also the value returned.
\<close>

fun run_loop :: "erow list \<Rightarrow> assessment list \<Rightarrow> assessment list" where
  "run_loop [] results = results"
| "run_loop (row # rows) results = run_loop rows (results @ [assess row])"

definition run_all_rules :: "erow list \<Rightarrow> error + assessment list" where
  "run_all_rules df =
     (let results = run_loop df []
      in if results = [] then Inl KeyError else Inr results)"

subsection \<open>The rule table of the specification\<close>

datatype rule =
  DUPLICATE | AMOUNT_ANOMALY | CODE_MISMATCH | VELOCITY_FRAUD | PROVIDER_OUTLIER | IMPOSSIBLE_SCENARIO

definition all_rules :: "rule list" where
  "all_rules =
     [DUPLICATE, AMOUNT_ANOMALY, CODE_MISMATCH, VELOCITY_FRAUD, PROVIDER_OUTLIER, IMPOSSIBLE_SCENARIO]"

fun rule_label :: "rule \<Rightarrow> string" where
  "rule_label DUPLICATE = ''DUPLICATE''"
| "rule_label AMOUNT_ANOMALY = ''AMOUNT_ANOMALY''"
| "rule_label CODE_MISMATCH = ''CODE_MISMATCH''"
| "rule_label VELOCITY_FRAUD = ''VELOCITY_FRAUD''"
| "rule_label PROVIDER_OUTLIER = ''PROVIDER_OUTLIER''"
| "rule_label IMPOSSIBLE_SCENARIO = ''IMPOSSIBLE_SCENARIO''"

fun rule_weight :: "rule \<Rightarrow> int" where
  "rule_weight DUPLICATE = 20"
| "rule_weight AMOUNT_ANOMALY = 25"
| "rule_weight CODE_MISMATCH = 15"
| "rule_weight VELOCITY_FRAUD = 20"
| "rule_weight PROVIDER_OUTLIER = 15"
| "rule_weight IMPOSSIBLE_SCENARIO = 30"

text \<open>The trigger predicate of a rule is the first component of what its function returns.\<close>

fun triggered :: "rule \<Rightarrow> erow \<Rightarrow> bool" where
  "triggered DUPLICATE row = fst (rule_duplicate_claims row)"
| "triggered AMOUNT_ANOMALY row = fst (rule_amount_anomaly row)"
| "triggered CODE_MISMATCH row = fst (rule_code_mismatch row)"
| "triggered VELOCITY_FRAUD row = fst (rule_velocity_fraud row)"
| "triggered PROVIDER_OUTLIER row = fst (rule_provider_outlier row)"
| "triggered IMPOSSIBLE_SCENARIO row = fst (rule_impossible_scenario row)"

section \<open>Feature engine (src/data/etl.py)\<close>

subsection \<open>Column arithmetic\<close>

text \<open>
  The amounts are float64 numbers, and the statistics are computed by pandas in float64.
  What the source fixes is which operations are applied; their rounded results are
  not determined by it. The operations are therefore parameters of the model, collected
  in \<open>arith\<close>: the mean of a group (\<^verbatim>\<open>'mean'\<close>), the sample standard deviation of a group
  of two values or more (\<^verbatim>\<open>'std'\<close>, \<^verbatim>\<open>ddof=1\<close>), the difference of two numbers and the
  quotient of a number by a number other than zero. A group of \<^verbatim>\<open>groupby\<close> is never
  empty, so the mean is only applied to a non-empty list.
\<close>

record arith =
  agg_mean :: "real list \<Rightarrow> real"
  agg_std :: "real list \<Rightarrow> fval"
  fsub :: "real \<Rightarrow> real \<Rightarrow> real"
  fquot :: "real \<Rightarrow> real \<Rightarrow> real"

text \<open>pandas leaves the standard deviation undefined (NaN) on fewer than two values.\<close>

definition std :: "arith \<Rightarrow> real list \<Rightarrow> fval" where
  "std ar xs = (if length xs < 2 then NaN else agg_std ar xs)"

text \<open>
  Float division of a number by a column value: by zero it gives NaN for \<open>0 / 0\<close> and an
  infinity otherwise, no exception; an undefined divisor gives an undefined quotient.
\<close>

fun fdiv :: "arith \<Rightarrow> real \<Rightarrow> fval \<Rightarrow> fval" where
  "fdiv ar a (Fin b) =
     (if b \<noteq> 0 then Fin (fquot ar a b) else if a = 0 then NaN else if a > 0 then PInf else NInf)"
| "fdiv ar a PInf = Fin 0"
| "fdiv ar a NInf = Fin 0"
| "fdiv ar a NaN = NaN"

fun fillna :: "real \<Rightarrow> fval \<Rightarrow> fval" where
  "fillna v NaN = Fin v"
| "fillna v x = x"

text \<open>
  The arithmetic of real numbers, without rounding: the mean and the sample standard
  deviation as the specification defines them.
\<close>

definition mean :: "real list \<Rightarrow> real" where
  "mean xs = sum_list xs / real (length xs)"

definition sample_std :: "real list \<Rightarrow> real" where
  "sample_std xs = sqrt (sum_list (map (\<lambda>x. (x - mean xs)\<^sup>2) xs) / real (length xs - 1))"

definition exact_arith :: arith where
  "exact_arith =
     \<lparr> agg_mean = mean, agg_std = (\<lambda>xs. Fin (sample_std xs)),
       fsub = (\<lambda>a b. a - b), fquot = (\<lambda>a b. a / b) \<rparr>"

subsection \<open>Binary64 arithmetic\<close>

text \<open>
  The arithmetic that a run of the program uses. Every operation of IEEE 754 binary64
  returns the exact result rounded to the nearest number with 53 significant bits, ties
  to the even one; \<open>rnd64\<close> is that rounding (the exponent range is not bounded here: no
  overflow and no subnormal numbers). pandas computes the mean of a group by a
  compensated (Kahan) summation followed by a division by the count, and the standard
  deviation of a group by Welford's update of the mean and of the sum of squared
  deviations, followed by the division by \<open>n - 1\<close> and the square root. These two loops
  are pandas code, not code of the repository.
\<close>

definition round_half_even :: "real \<Rightarrow> int" where
  "round_half_even m =
     (let f = \<lfloor>m\<rfloor>; d = m - of_int f
      in if d < 1 / 2 then f else if d > 1 / 2 then f + 1 else if even f then f else f + 1)"

definition rnd64 :: "real \<Rightarrow> real" where
  "rnd64 x =
     (if x = 0 then 0
      else (let e = \<lfloor>log 2 \<bar>x\<bar>\<rfloor> - 52
            in of_int (round_half_even (x * 2 powr (- of_int e))) * 2 powr (of_int e)))"

fun kahan_sum :: "real list \<Rightarrow> real \<Rightarrow> real \<Rightarrow> real" where
  "kahan_sum [] sumx compensation = sumx"
| "kahan_sum (val # vals) sumx compensation =
     (let y = rnd64 (val - compensation);
          t = rnd64 (sumx + y)
      in kahan_sum vals t (rnd64 (rnd64 (t - sumx) - y)))"

definition f64_mean :: "real list \<Rightarrow> real" where
  "f64_mean xs = rnd64 (kahan_sum xs 0 0 / real (length xs))"

fun welford :: "real list \<Rightarrow> nat \<Rightarrow> real \<Rightarrow> real \<Rightarrow> real" where
  "welford [] nobs oldmean out = out"
| "welford (val # vals) nobs oldmean out =
     (let n = Suc nobs;
          newmean = rnd64 (oldmean + rnd64 (rnd64 (val - oldmean) / real n))
      in welford vals n newmean
           (rnd64 (out + rnd64 (rnd64 (val - newmean) * rnd64 (val - oldmean)))))"

definition f64_std :: "real list \<Rightarrow> fval" where
  "f64_std xs = Fin (rnd64 (sqrt (rnd64 (welford xs 0 0 0 / real (length xs - 1)))))"

definition float64 :: arith where
  "float64 =
     \<lparr> agg_mean = f64_mean, agg_std = f64_std,
       fsub = (\<lambda>a b. rnd64 (a - b)), fquot = (\<lambda>a b. rnd64 (a / b)) \<rparr>"

subsection \<open>Code mismatch\<close>

text \<open>Python's \<^verbatim>\<open>s.split(sep)\<close> for a separator of one character.\<close>

fun py_split :: "char \<Rightarrow> string \<Rightarrow> string list" where
  "py_split sep [] = [[]]"
| "py_split sep (c # cs) =
     (if c = sep then [] # py_split sep cs
      else (case py_split sep cs of [] \<Rightarrow> [[c]] | t # ts \<Rightarrow> (c # t) # ts))"

definition valid_combos :: "(string \<times> string list) list" where
  "valid_combos =
     [(''D_HEART'', [''CARD'']),
      (''D_CARDIAC'', [''CARD'']),
      (''D_VASCULAR'', [''CARD'']),
      (''D_CANCER'', [''ONC'']),
      (''D_TUMOR'', [''ONC'']),
      (''D_LEUKEMIA'', [''ONC'']),
      (''D_LYMPHOMA'', [''ONC'']),
      (''D_CHILD'', [''PED'']),
      (''D_INFANT'', [''PED'']),
      (''D_FEVER'', [''PED'', ''GP'']),
      (''D_ALLERGY'', [''PED'', ''GP'']),
      (''D_BONE'', [''ORTH'']),
      (''D_JOINT'', [''ORTH'']),
      (''D_FRACTURE'', [''ORTH'']),
      (''D_SPRAIN'', [''ORTH'']),
      (''D_ROUTINE'', [''GP'']),
      (''D_CHECKUP'', [''GP'']),
      (''D_FLU'', [''GP'', ''ER'']),
      (''D_COMMON'', [''GP'']),
      (''D_ACCIDENT'', [''ER'', ''ORTH'']),
      (''D_TRAUMA'', [''ER'', ''SURG'']),
      (''D_URGENT'', [''ER'']),
      (''D_CRITICAL'', [''ER'', ''SURG'']),
      (''D_SURGICAL'', [''SURG'']),
      (''D_OPERATION'', [''SURG'']),
      (''D_PROCEDURE'', [''SURG'']),
      (''D_INVASIVE'', [''SURG'']),
      (''D_XRAY'', [''RAD'']),
      (''D_SCAN'', [''RAD'']),
      (''D_IMAGING'', [''RAD'']),
      (''D_MRI'', [''RAD''])]"

text \<open>
  The body of the loop of \<^verbatim>\<open>_detect_code_mismatches\<close> on a row whose diagnosis and
  procedure codes are strings: the value appended. \<^verbatim>\<open>split\<close> never returns an empty
  list, so \<^verbatim>\<open>[0]\<close> is its first element. The loop itself, further down, is where a
  code that is not a string makes \<^verbatim>\<open>split\<close> raise.
\<close>

definition diag_prefix :: "string \<Rightarrow> string" where
  "diag_prefix diagnosis = join ''_'' (take 2 (py_split CHR ''_'' diagnosis))"

definition proc_prefix :: "string \<Rightarrow> string" where
  "proc_prefix procedure = (case py_split CHR ''0'' procedure of [] \<Rightarrow> [] | t # ts \<Rightarrow> t)"

definition code_mismatch :: "string \<Rightarrow> string \<Rightarrow> bool" where
  "code_mismatch diagnosis procedure =
     (case map_of valid_combos (diag_prefix diagnosis) of
        Some accepted \<Rightarrow> \<not> (proc_prefix procedure \<in> set accepted)
      | None \<Rightarrow> False)"

text \<open>
  The loop of \<^verbatim>\<open>_detect_code_mismatches\<close>. \<^verbatim>\<open>diagnosis.split('_')\<close> is evaluated first,
  then \<^verbatim>\<open>procedure.split('0')\<close>; on an object that is not a string either raises
  AttributeError, which ends \<^verbatim>\<open>transform\<close>.
\<close>

fun mismatch_loop :: "claim list \<Rightarrow> bool list \<Rightarrow> error + bool list" where
  "mismatch_loop [] mismatches = Inr mismatches"
| "mismatch_loop (row # rows) mismatches =
     (case diagnosis_code row of
        NotText \<Rightarrow> Inl AttributeError
      | Text diagnosis \<Rightarrow>
          (case procedure_code row of
             NotText \<Rightarrow> Inl AttributeError
           | Text procedure \<Rightarrow>
               mismatch_loop rows (mismatches @ [code_mismatch diagnosis procedure])))"

definition detect_code_mismatches :: "claim list \<Rightarrow> error + bool list" where
  "detect_code_mismatches df = mismatch_loop df []"

subsection \<open>transform\<close>

text \<open>
  \<^verbatim>\<open>groupby(key)[col].agg(f)\<close> followed by a left \<^verbatim>\<open>merge\<close> on \<open>key\<close> gives every row
  the aggregate of the rows that share its key, and keeps the rows and their order.
  \<open>group_amounts key df row\<close> is the \<^verbatim>\<open>claim_amount\<close> group of \<open>row\<close>; the counts of
  \<^verbatim>\<open>.size()\<close> are lengths of the filtered frame.
\<close>

definition group_amounts :: "(claim \<Rightarrow> string) \<Rightarrow> claim list \<Rightarrow> claim \<Rightarrow> real list" where
  "group_amounts key df row = map claim_amount (filter (\<lambda>x. key x = key row) df)"

text \<open>
  The window count of one row within the frame of its patient:
  \<^verbatim>\<open>((x['claim_date'] >= date - pd.Timedelta(days=n)) & (x['claim_date'] <= date)).sum()\<close>.
\<close>

definition window_count :: "int \<Rightarrow> claim list \<Rightarrow> claim \<Rightarrow> int" where
  "window_count n df row =
     int (length (filter (\<lambda>x. patient_id x = patient_id row \<and>
                              claim_date x \<ge> claim_date row - n \<and>
                              claim_date x \<le> claim_date row) df))"

definition same_day_count :: "claim list \<Rightarrow> claim \<Rightarrow> int" where
  "same_day_count df row =
     int (length (filter (\<lambda>x. patient_id x = patient_id row \<and> claim_date x = claim_date row) df))"

definition duplicate_count_of :: "claim list \<Rightarrow> claim \<Rightarrow> int" where
  "duplicate_count_of df row = int (length (filter (\<lambda>x. claim_id x = claim_id row) df))"

definition surgery_codes :: "string list" where
  "surgery_codes =
     [''SURG001'', ''SURG002'', ''SURG003'', ''SURG004'', ''CARD003'', ''ORTH003'', ''ONC002'']"

text \<open>
  \<^verbatim>\<open>sort_values(['patient_id', 'claim_date'])\<close> is a stable lexicographic sort; strings
  compare by code point.
\<close>

definition by_patient_date :: "claim list \<Rightarrow> claim list" where
  "by_patient_date df0 = sort_key (\<lambda>row. (patient_id row, claim_date row)) df0"

text \<open>
  The two window columns are assigned from
  \<^verbatim>\<open>self.df.groupby('patient_id').apply(lambda x: x['claim_date'].apply(...)).reset_index(level=0, drop=True)\<close>.
  The function passed returns, for each patient, a Series of counts indexed by the row
  labels of that patient. What \<^verbatim>\<open>groupby(...).apply\<close> makes of these Series depends on
  the number of groups:
  \<^item> with two patients or more, the Series have different indexes and pandas concatenates
    them into one Series indexed by (patient, row label); \<^verbatim>\<open>reset_index\<close> drops the
    patient level, which leaves one count per row label;
  \<^item> with one patient, all the Series (there is one) have the same index, and pandas
    stacks them into a frame with one line per patient and one column per row label;
  \<^item> with no patient (an empty frame), pandas returns an empty frame that has the
    columns of the data.
  \<open>applied\<close> is the value returned, a Series by its values in row order or a frame by
  its columns; \<open>ncols\<close> is the number of columns of the data, 16 at the first call (the
  10 columns of the file and the 6 of steps 1 to 4) and 17 at the second.
\<close>

datatype 'a applied = AsSeries "'a list" | AsFrame "'a list list"

definition groupby_apply :: "nat \<Rightarrow> int \<Rightarrow> claim list \<Rightarrow> int applied" where
  "groupby_apply ncols n df =
     (let ngroups = length (remdups (map patient_id df));
          counts = map (window_count n df) df
      in if ngroups = 0 then AsFrame (replicate ncols [])
         else if ngroups = 1 then AsFrame (map (\<lambda>v. [v]) counts)
         else AsSeries counts)"

text \<open>
  \<^verbatim>\<open>self.df[name] = value\<close>. A Series is aligned with the rows by label. A frame is
  accepted only if it has exactly one column, which is then assigned as a Series;
  otherwise pandas raises ValueError (a frame with multiple columns, or without columns,
  cannot be set to a single column).
\<close>

definition assign_column :: "'a applied \<Rightarrow> error + 'a list" where
  "assign_column v =
     (case v of
        AsSeries vs \<Rightarrow> Inr vs
      | AsFrame cols \<Rightarrow> (case cols of [col] \<Rightarrow> Inr col | _ \<Rightarrow> Inl ValueError))"

text \<open>
  One row of the result. \<open>df0\<close> is the frame as extracted, on which the provider and
  specialty statistics are computed (steps 1 to 4); \<open>df\<close> is the frame after
  \<^verbatim>\<open>sort_values\<close>, on which the remaining columns are computed; \<open>claims_7d\<close> and
  \<open>claims_30d\<close> are the values assigned to the row in the two window columns, \<open>mismatch\<close>
  is the entry of the list of \<^verbatim>\<open>_detect_code_mismatches\<close> at the position of the row.
  Doubling a float and comparing two floats involve no rounding.
  \<^verbatim>\<open>isin(surgery_codes)\<close> is false on an object that is not a string.
\<close>

definition enrich ::
  "arith \<Rightarrow> claim list \<Rightarrow> claim list \<Rightarrow> claim \<Rightarrow> int \<Rightarrow> int \<Rightarrow> bool \<Rightarrow> erow" where
  "enrich ar df0 df row claims_7d claims_30d mismatch =
     (let provider_avg = agg_mean ar (group_amounts provider_id df0 row);
          provider_total = int (length (group_amounts provider_id df0 row));
          specialty_avg = agg_mean ar (group_amounts provider_specialty df0 row);
          specialty_std = std ar (group_amounts provider_specialty df0 row);
          zscore = fillna 0 (fdiv ar (fsub ar (claim_amount row) specialty_avg) specialty_std);
          same_day = same_day_count df row;
          dups = duplicate_count_of df row;
          surgery = (case procedure_code row of
                       Text procedure \<Rightarrow> procedure \<in> set surgery_codes
                     | NotText \<Rightarrow> False)
      in \<lparr> claim_id = claim_id row,
           patient_id = patient_id row,
           provider_id = provider_id row,
           provider_specialty = provider_specialty row,
           procedure_code = procedure_code row,
           diagnosis_code = diagnosis_code row,
           claim_amount = claim_amount row,
           claim_date = claim_date row,
           status = status row,
           is_fraud = is_fraud row,
           provider_avg_amount = provider_avg,
           provider_total_claims = provider_total,
           specialty_avg_amount = specialty_avg,
           specialty_std_amount = specialty_std,
           amount_zscore = zscore,
           is_provider_outlier = (provider_avg > specialty_avg * 2),
           patient_claims_7d = claims_7d,
           patient_claims_30d = claims_30d,
           same_day_claim_count = same_day,
           is_code_mismatch = mismatch,
           duplicate_count = dups,
           is_duplicate = (dups > 1),
           is_high_amount = (claim_amount row > 50000),
           is_surgery = surgery,
           same_day_surgeries = (same_day > 1 \<and> surgery) \<rparr>)"

text \<open>
  \<^verbatim>\<open>transform\<close>, as a function of the frame held in \<^verbatim>\<open>self.df\<close>. The statements before
  the first window column raise nothing on a frame of claims; each of the two
  assignments of a window column may raise, and so may \<^verbatim>\<open>_detect_code_mismatches\<close>,
  whose list is assigned by position.
\<close>

definition transform_frame :: "arith \<Rightarrow> claim list \<Rightarrow> error + erow list" where
  "transform_frame ar df0 =
     (let df = by_patient_date df0
      in case assign_column (groupby_apply 16 7 df) of
           Inl e \<Rightarrow> Inl e
         | Inr claims_7d \<Rightarrow>
             (case assign_column (groupby_apply 17 30 df) of
                Inl e \<Rightarrow> Inl e
              | Inr claims_30d \<Rightarrow>
                  (case detect_code_mismatches df of
                     Inl e \<Rightarrow> Inl e
                   | Inr mismatches \<Rightarrow>
                       Inr (map (\<lambda>(row, c7, c30, mismatch). enrich ar df0 df row c7 c30 mismatch)
                             (zip df (zip claims_7d (zip claims_30d mismatches)))))))"

section \<open>Notions used to state the properties\<close>

text \<open>
  The rows whose two codes are strings, and the flag that the loop of
  \<^verbatim>\<open>_detect_code_mismatches\<close> appends for such a row.
\<close>

definition has_codes :: "claim \<Rightarrow> bool" where
  "has_codes row =
     (case diagnosis_code row of
        NotText \<Rightarrow> False
      | Text diagnosis \<Rightarrow> (case procedure_code row of NotText \<Rightarrow> False | Text procedure \<Rightarrow> True))"

definition mismatch_of :: "claim \<Rightarrow> bool" where
  "mismatch_of row =
     (case diagnosis_code row of
        NotText \<Rightarrow> False
      | Text diagnosis \<Rightarrow>
          (case procedure_code row of
             NotText \<Rightarrow> False
           | Text procedure \<Rightarrow> code_mismatch diagnosis procedure))"

text \<open>
  The populations on which an assignment of a window column raises: no patient at all,
  or a single patient with more than one claim.
\<close>

definition apply_assign_fails :: "claim list \<Rightarrow> bool" where
  "apply_assign_fails df =
     (let ngroups = length (remdups (map patient_id df))
      in ngroups = 0 \<or> (ngroups = 1 \<and> length df > 1))"

text \<open>The row that \<^verbatim>\<open>transform\<close> makes of a claim of the population \<open>df0\<close>.\<close>

definition enriched :: "arith \<Rightarrow> claim list \<Rightarrow> claim \<Rightarrow> erow" where
  "enriched ar df0 row =
     enrich ar df0 (by_patient_date df0) row
       (window_count 7 (by_patient_date df0) row) (window_count 30 (by_patient_date df0) row)
       (mismatch_of row)"

text \<open>The frame that a run of \<^verbatim>\<open>transform\<close> leaves, empty when it raised.\<close>

definition rows_of :: "error + erow list \<Rightarrow> erow list" where
  "rows_of res = (case res of Inl e \<Rightarrow> [] | Inr rows \<Rightarrow> rows)"

text \<open>
  The trigger conditions of the six rules as the table of the specification gives them,
  on the features of the enriched claim.
\<close>

fun spec_trigger :: "rule \<Rightarrow> erow \<Rightarrow> bool" where
  "spec_trigger DUPLICATE row = (duplicate_count row > 1)"
| "spec_trigger AMOUNT_ANOMALY row = (abs_gt (amount_zscore row) 3 \<or> is_high_amount row)"
| "spec_trigger CODE_MISMATCH row = is_code_mismatch row"
| "spec_trigger VELOCITY_FRAUD row = (patient_claims_7d row \<ge> 5 \<or> patient_claims_30d row \<ge> 10)"
| "spec_trigger PROVIDER_OUTLIER row = is_provider_outlier row"
| "spec_trigger IMPOSSIBLE_SCENARIO row =
     (same_day_surgeries row \<or> (is_surgery row \<and> patient_claims_7d row \<ge> 3))"

text \<open>
  The prefixes in the words of the specification, written without \<^verbatim>\<open>split\<close>: the first
  two underscore-delimited tokens of a diagnosis code (the whole code when it has no
  underscore), and the portion of a procedure code before its first digit.
  \<open>spec_code_mismatch\<close> is the flag that the specification describes.
\<close>

definition first_two_tokens :: "string \<Rightarrow> string" where
  "first_two_tokens s =
     takeWhile (\<lambda>c. c \<noteq> CHR ''_'') s @
     (case dropWhile (\<lambda>c. c \<noteq> CHR ''_'') s of
        [] \<Rightarrow> []
      | u # rest \<Rightarrow> u # takeWhile (\<lambda>c. c \<noteq> CHR ''_'') rest)"

definition before_first_digit :: "string \<Rightarrow> string" where
  "before_first_digit s = takeWhile (\<lambda>c. c \<notin> set ''0123456789'') s"

definition spec_code_mismatch :: "string \<Rightarrow> string \<Rightarrow> bool" where
  "spec_code_mismatch diagnosis procedure =
     (case map_of valid_combos (first_two_tokens diagnosis) of
        Some accepted \<Rightarrow> before_first_digit procedure \<notin> set accepted
      | None \<Rightarrow> False)"

section \<open>Example inputs\<close>

text \<open>
  An enriched row on which DUPLICATE, AMOUNT_ANOMALY and PROVIDER_OUTLIER trigger: a claim
  of 75000 in a specialty of mean 2000 and standard deviation 500, two occurrences of
  the claim identifier, a provider whose average is above twice the specialty's.
\<close>

definition example_row :: erow where
  "example_row =
     \<lparr> claim_id = ''C00001'', patient_id = ''P0001'', provider_id = ''DR001'',
       provider_specialty = ''Cardiology'', procedure_code = Text ''CARD001'',
       diagnosis_code = Text ''D_HEART01'', claim_amount = 75000, claim_date = 100,
       status = ''approved'', is_fraud = True,
       provider_avg_amount = 5000, provider_total_claims = 12,
       specialty_avg_amount = 2000, specialty_std_amount = Fin 500,
       amount_zscore = Fin 146, is_provider_outlier = True,
       patient_claims_7d = 1, patient_claims_30d = 2, same_day_claim_count = 1,
       is_code_mismatch = False, duplicate_count = 2, is_duplicate = True,
       is_high_amount = True, is_surgery = False, same_day_surgeries = False \<rparr>"

text \<open>
  A row on which only IMPOSSIBLE_SCENARIO triggers: a surgery, the third claim of its
  patient within 7 days.
\<close>

definition surgery_row :: erow where
  "surgery_row =
     \<lparr> claim_id = ''C00009'', patient_id = ''P0009'', provider_id = ''DR002'',
       provider_specialty = ''Cardiology'', procedure_code = Text ''CARD003'',
       diagnosis_code = Text ''D_HEART01'', claim_amount = 2100, claim_date = 100,
       status = ''approved'', is_fraud = False,
       provider_avg_amount = 2000, provider_total_claims = 12,
       specialty_avg_amount = 2000, specialty_std_amount = Fin 500,
       amount_zscore = Fin (1 / 5), is_provider_outlier = False,
       patient_claims_7d = 3, patient_claims_30d = 3, same_day_claim_count = 1,
       is_code_mismatch = False, duplicate_count = 1, is_duplicate = False,
       is_high_amount = False, is_surgery = True, same_day_surgeries = False \<rparr>"

text \<open>
  A population of two patients. Patient P0001 has five claims on five consecutive days,
  all in Cardiology with amounts of mean 2 and sample standard deviation 1; one of
  them has a procedure code whose first digit is not \<open>0\<close>. Patient P0002 has the only
  Radiology claim. \<open>example_sorted\<close> is the population in the order of
  \<^verbatim>\<open>sort_values\<close>, \<open>example_rows\<close> the enriched frame, computed without rounding.
\<close>

definition example_claim ::
  "string \<Rightarrow> string \<Rightarrow> string \<Rightarrow> string \<Rightarrow> string \<Rightarrow> real \<Rightarrow> int \<Rightarrow> claim" where
  "example_claim cid pid spec procedure diagnosis amount day =
     \<lparr> claim_id = cid, patient_id = pid, provider_id = ''DR001'', provider_specialty = spec,
       procedure_code = read_cell procedure, diagnosis_code = read_cell diagnosis,
       claim_amount = amount, claim_date = day, status = ''approved'', is_fraud = False \<rparr>"

definition example_population :: "claim list" where
  "example_population =
     [example_claim ''C00006'' ''P0002'' ''Radiology'' ''RAD001'' ''D_XRAY01'' 500 3,
      example_claim ''C00005'' ''P0001'' ''Cardiology'' ''CARD001'' ''D_HEART01'' 2 14,
      example_claim ''C00001'' ''P0001'' ''Cardiology'' ''CARD001'' ''D_HEART_01'' 1 10,
      example_claim ''C00003'' ''P0001'' ''Cardiology'' ''CARD123'' ''D_HEART_1'' 3 12,
      example_claim ''C00002'' ''P0001'' ''Cardiology'' ''SURG001'' ''D_HEART_01'' 1 11,
      example_claim ''C00004'' ''P0001'' ''Cardiology'' ''CARD002'' ''D_CARDIAC_03'' 3 13]"

definition example_sorted :: "claim list" where
  "example_sorted =
     [example_claim ''C00001'' ''P0001'' ''Cardiology'' ''CARD001'' ''D_HEART_01'' 1 10,
      example_claim ''C00002'' ''P0001'' ''Cardiology'' ''SURG001'' ''D_HEART_01'' 1 11,
      example_claim ''C00003'' ''P0001'' ''Cardiology'' ''CARD123'' ''D_HEART_1'' 3 12,
      example_claim ''C00004'' ''P0001'' ''Cardiology'' ''CARD002'' ''D_CARDIAC_03'' 3 13,
      example_claim ''C00005'' ''P0001'' ''Cardiology'' ''CARD001'' ''D_HEART01'' 2 14,
      example_claim ''C00006'' ''P0002'' ''Radiology'' ''RAD001'' ''D_XRAY01'' 500 3]"

definition example_rows :: "erow list" where
  "example_rows = rows_of (transform_frame exact_arith example_population)"

text \<open>
  The example population with one more claim, of a third patient, whose diagnosis
  field is empty in the file.
\<close>

definition missing_code_population :: "claim list" where
  "missing_code_population =
     example_claim ''C00007'' ''P0003'' ''Radiology'' ''RAD002'' [] 700 5 # example_population"

text \<open>
  Three claims of the amount 0.1 in one specialty, of two patients. \<open>tenth\<close> is the
  binary64 number that the text \<open>0.1\<close> of the file denotes; \<open>tenths_rows\<close> is the enriched
  frame in binary64 arithmetic.
\<close>

definition tenth :: real where
  "tenth = rnd64 (1 / 10)"

definition tenths_population :: "claim list" where
  "tenths_population =
     [example_claim ''C00001'' ''P0001'' ''General Practice'' ''GP001'' ''D_FLU03'' tenth 1,
      example_claim ''C00002'' ''P0001'' ''General Practice'' ''GP002'' ''D_FLU03'' tenth 2,
      example_claim ''C00003'' ''P0002'' ''General Practice'' ''GP001'' ''D_FLU03'' tenth 3]"

definition tenths_rows :: "erow list" where
  "tenths_rows = rows_of (transform_frame float64 tenths_population)"

section \<open>Properties of the rule evaluator\<close>

lemma apply_rule_eq:
  "apply_rule label w res (fl, sc, ex) =
     (if fst res then (fl @ [label], sc + w, ex @ [snd res]) else (fl, sc, ex))"
  by (simp add: apply_rule_def split: prod.splits)

lemma evaluate_flags:
  "fst (evaluate row) = map rule_label (filter (\<lambda>r. triggered r row) all_rules)"
  by (simp add: evaluate_def apply_rule_eq all_rules_def)

lemma evaluate_score:
  "fst (snd (evaluate row)) = sum_list (map rule_weight (filter (\<lambda>r. triggered r row) all_rules))"
  by (simp add: evaluate_def apply_rule_eq all_rules_def)


lemma example_row_triggered:
  "filter (\<lambda>r. triggered r example_row) all_rules = [DUPLICATE, AMOUNT_ANOMALY, PROVIDER_OUTLIER]"
  by (simp add: example_row_def all_rules_def rule_duplicate_claims_def
      rule_amount_anomaly_def rule_code_mismatch_def rule_velocity_fraud_def
      rule_provider_outlier_def rule_impossible_scenario_def)

lemma rule_weight_ge: "15 \<le> rule_weight r"
  by (cases r) simp_all

lemma weight_sum_nonneg: "0 \<le> sum_list (map rule_weight rs)"
proof (induction rs)
  case Nil
  show ?case by simp
next
  case (Cons r rs)
  have "15 \<le> rule_weight r" by (rule rule_weight_ge)
  with Cons show ?case by simp
qed

lemma weight_sum_ge: "rs \<noteq> [] \<Longrightarrow> 15 \<le> sum_list (map rule_weight rs)"
proof (cases rs)
  case Nil
  assume "rs \<noteq> []"
  with Nil show ?thesis by simp
next
  case (Cons r rs')
  have "15 \<le> rule_weight r" by (rule rule_weight_ge)
  moreover have "0 \<le> sum_list (map rule_weight rs')" by (rule weight_sum_nonneg)
  ultimately show ?thesis using Cons by simp
qed

lemma assess_score: "fraud_score (assess row) = min (fst (snd (evaluate row))) 100"
  by (simp add: assess_def split: prod.splits)

lemma assess_detected: "fraud_detected (assess row) = (fst (evaluate row) \<noteq> [])"
  by (simp add: assess_def split: prod.splits)

lemma assess_rules_triggered:
  "rules_triggered (assess row) =
     (if fst (evaluate row) \<noteq> [] then join '', '' (fst (evaluate row)) else ''NONE'')"
  by (simp add: assess_def split: prod.splits)

lemma assess_claim_id: "a_claim_id (assess row) = claim_id row"
  by (simp add: assess_def split: prod.splits)

text \<open>The trigger conditions, as the rule functions compute them.\<close>

lemma triggered_table:
  "triggered DUPLICATE row = (duplicate_count row > 1)"
  "triggered AMOUNT_ANOMALY row = (abs_gt (amount_zscore row) 3 \<or> is_high_amount row)"
  "triggered CODE_MISMATCH row = is_code_mismatch row"
  "triggered VELOCITY_FRAUD row = (patient_claims_7d row \<ge> 5 \<or> patient_claims_30d row \<ge> 10)"
  "triggered PROVIDER_OUTLIER row = is_provider_outlier row"
  "triggered IMPOSSIBLE_SCENARIO row =
     (same_day_surgeries row \<or> (is_surgery row \<and> patient_claims_7d row \<ge> 3))"
  by (simp_all add: rule_duplicate_claims_def rule_amount_anomaly_def rule_code_mismatch_def
      rule_velocity_fraud_def rule_provider_outlier_def rule_impossible_scenario_def Let_def)

lemma rule_label_inj: "rule_label r = rule_label r' \<Longrightarrow> r = r'"
  by (cases r; cases r') simp_all

lemma filter_in_subseqs: "filter P xs \<in> set (subseqs xs)"
  by (induction xs) (auto simp: Let_def)

lemma run_loop_map: "run_loop rows results = results @ map assess rows"
  by (induction rows arbitrary: results) simp_all

text \<open>
  C1. For every enriched claim, the fraud score produced by the rule evaluator lies
  between 0 and 100, it is the sum of the weights of exactly the rules that triggered
  (DUPLICATE 20, AMOUNT_ANOMALY 25, CODE_MISMATCH 15, VELOCITY_FRAUD 20, PROVIDER_OUTLIER 15,
  IMPOSSIBLE_SCENARIO 30), capped at 100, and it is 0 if and only if \<open>fraud_detected\<close> is
  false.
\<close>

theorem fraud_score_capped_weight_sum:
  "0 \<le> fraud_score (assess row) \<and> fraud_score (assess row) \<le> 100 \<and>
   fraud_score (assess row) =
     min (sum_list (map rule_weight (filter (\<lambda>r. triggered r row) all_rules))) 100 \<and>
   (fraud_score (assess row) = 0 \<longleftrightarrow> fraud_detected (assess row) = False)"
proof -
  let ?rs = "filter (\<lambda>r. triggered r row) all_rules"
  have sc: "fraud_score (assess row) = min (sum_list (map rule_weight ?rs)) 100"
    by (simp add: assess_score evaluate_score)
  have det: "fraud_detected (assess row) = (?rs \<noteq> [])"
    by (simp add: assess_detected evaluate_flags)
  have nn: "0 \<le> sum_list (map rule_weight ?rs)" by (rule weight_sum_nonneg)
  have zero: "(sum_list (map rule_weight ?rs) = 0) = (?rs = [])"
  proof
    assume z: "sum_list (map rule_weight ?rs) = 0"
    show "?rs = []"
    proof (rule ccontr)
      assume "?rs \<noteq> []"
      then have "15 \<le> sum_list (map rule_weight ?rs)" by (rule weight_sum_ge)
      with z show False by simp
    qed
  next
    assume "?rs = []"
    then show "sum_list (map rule_weight ?rs) = 0" by simp
  qed
  from sc nn have "0 \<le> fraud_score (assess row)" by simp
  moreover from sc have "fraud_score (assess row) \<le> 100" by simp
  moreover have "(fraud_score (assess row) = 0) = (fraud_detected (assess row) = False)"
  proof (cases "?rs = []")
    case True
    with sc det show ?thesis by simp
  next
    case False
    with zero have "sum_list (map rule_weight ?rs) \<noteq> 0" by simp
    with sc have "fraud_score (assess row) \<noteq> 0" by (simp add: min_def)
    with det False show ?thesis by simp
  qed
  ultimately show ?thesis using sc by blast
qed

theorem fraud_score_capped_weight_sum_witness:
  "fraud_score (assess example_row) = 60 \<and> fraud_detected (assess example_row)"
proof -
  have "fraud_score (assess example_row) = 60"
    using fraud_score_capped_weight_sum [of example_row]
    unfolding example_row_triggered by simp
  moreover have "fraud_score (assess example_row) = 0 \<longleftrightarrow>
                 fraud_detected (assess example_row) = False"
    using fraud_score_capped_weight_sum [of example_row] by blast
  ultimately show ?thesis by simp
qed

text \<open>
  The result of each rule function is the condition that the table of the
  specification gives for the rule.
\<close>

lemma triggered_spec: "triggered r row = spec_trigger r row"
  by (cases r)
     (simp_all add: rule_duplicate_claims_def rule_amount_anomaly_def rule_code_mismatch_def
        rule_velocity_fraud_def rule_provider_outlier_def rule_impossible_scenario_def Let_def)

lemma surgery_row_triggered:
  "filter (\<lambda>r. spec_trigger r surgery_row) all_rules = [IMPOSSIBLE_SCENARIO]"
  by (simp add: surgery_row_def all_rules_def)

text \<open>
  C2. For every enriched claim, the rules listed in \<open>rules_triggered\<close> are exactly the
  rules among the six whose trigger condition holds on the features of that claim
  (\<open>duplicate_count > 1\<close>; z-score beyond 3 in absolute value, or the high-amount flag;
  the code-mismatch flag; 7-day count at least 5, or 30-day count at least 10; the
  provider-outlier flag; the same-day-surgery flag, or the surgery flag with a 7-day
  count of at least 3), none omitted and none added, in the fixed order DUPLICATE,
  AMOUNT_ANOMALY, CODE_MISMATCH, VELOCITY_FRAUD, PROVIDER_OUTLIER, IMPOSSIBLE_SCENARIO. Whether
  a rule is listed depends on its own condition only: every rule is evaluated, whatever
  the others returned. The column holds the labels joined by a comma and a space, and
  the text NONE when no rule triggered.
\<close>

theorem rules_triggered_exact:
  "all_rules =
     [DUPLICATE, AMOUNT_ANOMALY, CODE_MISMATCH, VELOCITY_FRAUD, PROVIDER_OUTLIER, IMPOSSIBLE_SCENARIO] \<and>
   fst (evaluate row) = map rule_label (filter (\<lambda>r. spec_trigger r row) all_rules) \<and>
   (\<forall>r. (rule_label r \<in> set (fst (evaluate row))) = spec_trigger r row) \<and>
   rules_triggered (assess row) =
     (if filter (\<lambda>r. spec_trigger r row) all_rules = [] then ''NONE''
      else join '', '' (map rule_label (filter (\<lambda>r. spec_trigger r row) all_rules)))"
proof -
  have every: "r \<in> set all_rules" for r
    by (cases r) (simp_all add: all_rules_def)
  have flags: "fst (evaluate row) = map rule_label (filter (\<lambda>r. spec_trigger r row) all_rules)"
    by (simp add: evaluate_flags triggered_spec)
  have listed: "(rule_label r \<in> set (fst (evaluate row))) = spec_trigger r row" for r
  proof
    assume "rule_label r \<in> set (fst (evaluate row))"
    then obtain r' where "r' \<in> set all_rules" "spec_trigger r' row" "rule_label r = rule_label r'"
      by (auto simp: flags)
    then show "spec_trigger r row" using rule_label_inj by blast
  next
    assume "spec_trigger r row"
    with every [of r] show "rule_label r \<in> set (fst (evaluate row))"
      by (simp add: flags)
  qed
  have col: "rules_triggered (assess row) =
     (if filter (\<lambda>r. spec_trigger r row) all_rules = [] then ''NONE''
      else join '', '' (map rule_label (filter (\<lambda>r. spec_trigger r row) all_rules)))"
    by (simp add: assess_rules_triggered flags)
  have "all_rules =
     [DUPLICATE, AMOUNT_ANOMALY, CODE_MISMATCH, VELOCITY_FRAUD, PROVIDER_OUTLIER, IMPOSSIBLE_SCENARIO]"
    by (simp add: all_rules_def)
  with flags listed col show ?thesis by blast
qed

theorem rules_triggered_exact_witness:
  "fst (evaluate surgery_row) = [''IMPOSSIBLE_SCENARIO''] \<and>
   rules_triggered (assess surgery_row) = ''IMPOSSIBLE_SCENARIO'' \<and>
   spec_trigger IMPOSSIBLE_SCENARIO surgery_row \<and> \<not> spec_trigger VELOCITY_FRAUD surgery_row"
proof -
  have "fst (evaluate surgery_row) = [''IMPOSSIBLE_SCENARIO''] \<and>
        rules_triggered (assess surgery_row) = ''IMPOSSIBLE_SCENARIO''"
    using rules_triggered_exact [of surgery_row] unfolding surgery_row_triggered by simp
  moreover have "spec_trigger IMPOSSIBLE_SCENARIO surgery_row \<and>
                 \<not> spec_trigger VELOCITY_FRAUD surgery_row"
    by (simp add: surgery_row_def)
  ultimately show ?thesis by blast
qed

text \<open>
  C6. Every run of the rule evaluator over an enriched claim set that returns yields
  exactly one assessment row per enriched claim, in the order of the claims and with
  the claim's identifier (a duplicated claim has one row per instance), so that there
  are as many assessment rows as enriched claims. The run raises only on the empty
  set, where there is no claim to assess.
\<close>

theorem one_assessment_per_claim:
  "case run_all_rules rows of
     Inl e \<Rightarrow> rows = []
   | Inr results \<Rightarrow> results = map assess rows \<and> length results = length rows \<and>
       map a_claim_id results = map claim_id rows"
  by (simp add: run_all_rules_def run_loop_map assess_claim_id)

theorem one_assessment_per_claim_witness:
  "\<exists>r1 r2. run_all_rules [example_row, example_row] = Inr [r1, r2] \<and>
     a_claim_id r1 = ''C00001'' \<and> a_claim_id r2 = ''C00001''"
  using one_assessment_per_claim [of "[example_row, example_row]"]
  by (auto split: sum.splits simp: example_row_def)

text \<open>
  C10. For every enriched claim, if \<open>fraud_detected\<close> is true then the fraud score is at
  least 15, the smallest weight: no score lies strictly between 0 and 15, and every
  score is the sum, capped at 100, of the weights of a selection of the six rules.
\<close>

theorem detected_score_at_least_15:
  "(fraud_detected (assess row) \<longrightarrow> 15 \<le> fraud_score (assess row)) \<and>
   \<not> (0 < fraud_score (assess row) \<and> fraud_score (assess row) < 15) \<and>
   (\<exists>rs \<in> set (subseqs all_rules).
      fraud_score (assess row) = min (sum_list (map rule_weight rs)) 100)"
proof -
  let ?rs = "filter (\<lambda>r. triggered r row) all_rules"
  have sc: "fraud_score (assess row) = min (sum_list (map rule_weight ?rs)) 100"
    by (simp add: assess_score evaluate_score)
  have det: "fraud_detected (assess row) = (?rs \<noteq> [])"
    by (simp add: assess_detected evaluate_flags)
  have big: "?rs \<noteq> [] \<Longrightarrow> 15 \<le> fraud_score (assess row)"
    using weight_sum_ge [of ?rs] sc by simp
  have small: "?rs = [] \<Longrightarrow> fraud_score (assess row) = 0"
    using sc by simp
  have "fraud_detected (assess row) \<longrightarrow> 15 \<le> fraud_score (assess row)"
    using det big by simp
  moreover have "\<not> (0 < fraud_score (assess row) \<and> fraud_score (assess row) < 15)"
    using big small by (cases "?rs = []") simp_all
  moreover have "\<exists>rs \<in> set (subseqs all_rules).
      fraud_score (assess row) = min (sum_list (map rule_weight rs)) 100"
    using sc filter_in_subseqs [of "\<lambda>r. triggered r row" all_rules] by blast
  ultimately show ?thesis by blast
qed

theorem detected_score_at_least_15_witness:
  "fraud_detected (assess example_row) \<and> (15::int) \<le> fraud_score (assess example_row)"
proof -
  have det: "fraud_detected (assess example_row)"
    by (simp add: assess_detected evaluate_flags example_row_triggered)
  with detected_score_at_least_15 [of example_row] show ?thesis by blast
qed

section \<open>Properties of the feature engine\<close>

subsection \<open>The shape of the result\<close>

lemma mismatch_loop_eq:
  "mismatch_loop df acc =
     (if list_all has_codes df then Inr (acc @ map mismatch_of df) else Inl AttributeError)"
  by (induction df arbitrary: acc) (auto simp: has_codes_def mismatch_of_def split: cell.splits)

lemma list_all_by_patient_date: "list_all P (by_patient_date df0) = list_all P df0"
  by (simp add: list_all_iff by_patient_date_def)

lemma assign_fails_sorted:
  "apply_assign_fails (sort_key k df) = apply_assign_fails df"
proof -
  have "length (remdups (map patient_id (sort_key k df))) = length (remdups (map patient_id df))"
    by (simp add: length_remdups_card_conv)
  then show ?thesis by (simp add: apply_assign_fails_def)
qed

lemma assign_fails_by_patient_date:
  "apply_assign_fails (by_patient_date df0) = apply_assign_fails df0"
  by (simp add: by_patient_date_def assign_fails_sorted)

lemma assign_frame:
  "assign_column (AsFrame cols) = (if length cols = 1 then Inr (hd cols) else Inl ValueError)"
proof (cases cols)
  case Nil
  then show ?thesis by (simp add: assign_column_def)
next
  case (Cons c cs)
  then show ?thesis by (cases cs) (simp_all add: assign_column_def)
qed

lemma assign_column_groupby:
  assumes "1 < ncols"
  shows "assign_column (groupby_apply ncols n df) =
           (if apply_assign_fails df then Inl ValueError else Inr (map (window_count n df) df))"
proof -
  define g where "g = length (remdups (map patient_id df))"
  have g0: "(g = 0) = (df = [])" by (simp add: g_def)
  have ga: "groupby_apply ncols n df =
        (if g = 0 then AsFrame (replicate ncols [])
         else if g = 1 then AsFrame (map (\<lambda>v. [v]) (map (window_count n df) df))
         else AsSeries (map (window_count n df) df))"
    by (simp add: groupby_apply_def Let_def g_def)
  have fails: "apply_assign_fails df = (g = 0 \<or> (g = 1 \<and> length df > 1))"
    by (simp add: apply_assign_fails_def Let_def g_def)
  show ?thesis
  proof (cases "g = 0")
    case True
    with assms show ?thesis by (simp add: ga fails assign_frame)
  next
    case False
    note nz = False
    show ?thesis
    proof (cases "g = 1")
      case True
      show ?thesis
      proof (cases "length df = 1")
        case True
        then have "hd (map (\<lambda>v. [v]) (map (window_count n df) df)) = map (window_count n df) df"
          by (cases df) auto
        with True \<open>g = 1\<close> show ?thesis by (simp add: ga fails assign_frame)
      next
        case False
        moreover from nz g0 have "df \<noteq> []" by simp
        ultimately have "1 < length df" by (cases df) auto
        with \<open>g = 1\<close> show ?thesis by (simp add: ga fails assign_frame)
      qed
    next
      case False
      with nz show ?thesis by (simp add: ga fails assign_column_def)
    qed
  qed
qed

lemma zip_columns:
  "zip xs (zip (map f xs) (zip (map g xs) (map h xs))) = map (\<lambda>x. (x, f x, g x, h x)) xs"
  by (induction xs) simp_all


lemma transform_frame_eq:
  "transform_frame ar df0 =
     (if apply_assign_fails df0 then Inl ValueError
      else if \<not> list_all has_codes df0 then Inl AttributeError
      else Inr (map (enriched ar df0) (by_patient_date df0)))"
  by (simp add: transform_frame_def Let_def assign_column_groupby assign_fails_by_patient_date
      detect_code_mismatches_def mismatch_loop_eq list_all_by_patient_date zip_columns comp_def
      enriched_def)

lemma transform_frame_row:
  assumes "transform_frame ar df0 = Inr rows" and "r \<in> set rows"
  obtains row where "row \<in> set df0" and "has_codes row" and "r = enriched ar df0 row"
proof -
  from assms(1) have rows: "rows = map (enriched ar df0) (by_patient_date df0)"
    and codes: "list_all has_codes df0"
    by (simp_all add: transform_frame_eq split: if_splits)
  from rows assms(2) obtain row where "row \<in> set (by_patient_date df0)"
    and "r = enriched ar df0 row" by auto
  moreover from this codes have "has_codes row"
    by (simp add: list_all_iff by_patient_date_def)
  ultimately show ?thesis using that by (simp add: by_patient_date_def)
qed

lemma truncate_enrich: "claim.truncate (enriched ar df0 row) = row"
  by (simp add: enriched_def enrich_def Let_def claim.truncate_def)

lemma transform_frame_claims:
  "transform_frame ar df0 = Inr rows \<Longrightarrow> map claim.truncate rows = by_patient_date df0"
  by (auto simp: transform_frame_eq truncate_enrich comp_def split: if_splits)

lemma assign_fails_iff:
  "apply_assign_fails df0 = (df0 = [] \<or> (card (patient_id ` set df0) = 1 \<and> 1 < length df0))"
  by (auto simp: apply_assign_fails_def Let_def length_remdups_card_conv)

lemma sorted_by_patient_date:
  "sorted (map (\<lambda>row. (patient_id row, claim_date row)) (by_patient_date df0))"
  by (simp add: by_patient_date_def)

lemma mset_by_patient_date: "mset (by_patient_date df0) = mset df0"
  by (simp add: by_patient_date_def)

lemma length_filter_sorted:
  "length (filter P (by_patient_date df0)) = length (filter P df0)"
proof -
  have "mset (filter P (by_patient_date df0)) = mset (filter P df0)"
    by (simp add: by_patient_date_def)
  then show ?thesis by (metis size_mset)
qed

lemma length_filter_pos: "x \<in> set xs \<Longrightarrow> P x \<Longrightarrow> 1 \<le> length (filter P xs)"
  by (induction xs) auto

lemma length_filter_mono:
  "(\<And>x. x \<in> set xs \<Longrightarrow> P x \<Longrightarrow> Q x) \<Longrightarrow> length (filter P xs) \<le> length (filter Q xs)"
  by (induction xs) auto

lemma window_count_sorted: "window_count n (by_patient_date df0) row = window_count n df0 row"
  by (simp add: window_count_def length_filter_sorted)

lemma same_day_count_sorted: "same_day_count (by_patient_date df0) row = same_day_count df0 row"
  by (simp add: same_day_count_def length_filter_sorted)

lemma duplicate_count_sorted:
  "duplicate_count_of (by_patient_date df0) row = duplicate_count_of df0 row"
  by (simp add: duplicate_count_of_def length_filter_sorted)


lemma enrich_fields:
  "claim_id (enriched ar df0 row) = claim_id row"
  "patient_id (enriched ar df0 row) = patient_id row"
  "provider_specialty (enriched ar df0 row) = provider_specialty row"
  "procedure_code (enriched ar df0 row) = procedure_code row"
  "diagnosis_code (enriched ar df0 row) = diagnosis_code row"
  "claim_amount (enriched ar df0 row) = claim_amount row"
  "claim_date (enriched ar df0 row) = claim_date row"
  "specialty_avg_amount (enriched ar df0 row) =
     agg_mean ar (group_amounts provider_specialty df0 row)"
  "specialty_std_amount (enriched ar df0 row) = std ar (group_amounts provider_specialty df0 row)"
  "amount_zscore (enriched ar df0 row) =
     fillna 0 (fdiv ar (fsub ar (claim_amount row)
                          (agg_mean ar (group_amounts provider_specialty df0 row)))
                    (std ar (group_amounts provider_specialty df0 row)))"
  "is_high_amount (enriched ar df0 row) = (claim_amount row > 50000)"
  "patient_claims_7d (enriched ar df0 row) = window_count 7 df0 row"
  "patient_claims_30d (enriched ar df0 row) = window_count 30 df0 row"
  "same_day_claim_count (enriched ar df0 row) = same_day_count df0 row"
  "duplicate_count (enriched ar df0 row) = duplicate_count_of df0 row"
  "is_code_mismatch (enriched ar df0 row) = mismatch_of row"
  by (simp_all add: enriched_def enrich_def Let_def window_count_sorted same_day_count_sorted
      duplicate_count_sorted)

lemma velocity_flag:
  "(''VELOCITY_FRAUD'' \<in> set (fst (evaluate r))) = fst (rule_velocity_fraud r)"
  by (simp add: evaluate_flags all_rules_def)

lemma amount_anomaly_flag:
  "(''AMOUNT_ANOMALY'' \<in> set (fst (evaluate r))) = fst (rule_amount_anomaly r)"
  by (simp add: evaluate_flags all_rules_def)

subsection \<open>The example population, evaluated\<close>

lemma ex_ok: "\<not> apply_assign_fails example_population"
  by code_simp

lemma ex_codes: "list_all has_codes example_population"
  by code_simp

lemma ex_sorted: "by_patient_date example_population = example_sorted"
  by code_simp

lemma ex_rows: "transform_frame exact_arith example_population = Inr example_rows"
  using ex_ok ex_codes by (simp add: example_rows_def rows_of_def transform_frame_eq)

lemma ex_rows_map:
  "example_rows = map (enriched exact_arith example_population) example_sorted"
  using ex_ok ex_codes by (simp add: example_rows_def rows_of_def transform_frame_eq ex_sorted)

lemma ex_sorted_len: "length example_sorted = 6"
  by (simp add: example_sorted_def)

lemma ex_len: "length example_rows = 6"
  by (simp add: ex_rows_map ex_sorted_len)

lemma ex_pop_len: "length example_population = 6"
  by (simp add: example_population_def)

lemma ex_nth:
  "i < 6 \<Longrightarrow> example_rows ! i =
     enriched exact_arith example_population (example_sorted ! i)"
  by (simp add: ex_rows_map ex_sorted_len)

lemma ex_mem: "i < 6 \<Longrightarrow> example_rows ! i \<in> set example_rows"
  by (simp add: ex_len)

lemma ex_wc: "map (window_count 7 example_population) example_sorted = [1, 2, 3, 4, 5, 1]"
  by code_simp

lemma ex_wc30: "map (window_count 30 example_population) example_sorted = [1, 2, 3, 4, 5, 1]"
  by code_simp

lemma ex_7d: "map patient_claims_7d example_rows = [1, 2, 3, 4, 5, 1]"
  using ex_wc by (simp add: ex_rows_map enrich_fields comp_def)

lemma ex_30d: "map patient_claims_30d example_rows = [1, 2, 3, 4, 5, 1]"
  using ex_wc30 by (simp add: ex_rows_map enrich_fields comp_def)

lemma ex_vel: "map (\<lambda>r. fst (rule_velocity_fraud r)) example_rows = [False, False, False, False, True, False]"
proof -
  have "map (\<lambda>r. fst (rule_velocity_fraud r)) example_rows =
        map (\<lambda>(a, b). 5 \<le> a \<or> 10 \<le> b) (zip (map patient_claims_7d example_rows) (map patient_claims_30d example_rows))"
    by (simp add: zip_map_map rule_velocity_fraud_def zip_same_conv_map)
  then show ?thesis by (simp add: ex_7d ex_30d)
qed

lemma ex_mm0: "map mismatch_of example_sorted = [False, True, True, False, False, False]"
  by code_simp

lemma ex_mm: "map is_code_mismatch example_rows = [False, True, True, False, False, False]"
  using ex_mm0 by (simp add: ex_rows_map enrich_fields comp_def)


subsection \<open>Window counts\<close>

text \<open>
  C3. In the enriched set of every run of \<^verbatim>\<open>transform\<close> that returns, every claim of
  the population has its row, and the count of a claim is the number of that patient's
  claims dated in the closed window of the 7 days that end on the date of the claim,
  the claim itself included. Hence, for a patient with 5 claims all dated within a 7-day
  span, those of the five that carry the latest date have \<open>patient_claims_7d\<close> at least 5
  and trigger VELOCITY_FRAUD, and an earlier one has the count of its own window only.
\<close>

theorem velocity_latest_claim:
  assumes tf: "transform_frame ar df0 = Inr rows"
    and five: "5 \<le> length (filter (\<lambda>x. patient_id x = pid \<and> d0 \<le> claim_date x \<and>
                                          claim_date x \<le> d0 + 7) df0)"
  shows "mset (map claim.truncate rows) = mset df0 \<and>
         (\<forall>r \<in> set rows.
            patient_claims_7d r =
              int (length (filter (\<lambda>x. patient_id x = patient_id r \<and>
                                        claim_date r - 7 \<le> claim_date x \<and>
                                        claim_date x \<le> claim_date r) df0))) \<and>
         (\<forall>r \<in> set rows.
            patient_id r = pid \<and> d0 \<le> claim_date r \<and> claim_date r \<le> d0 + 7 \<and>
            (\<forall>x \<in> set df0. patient_id x = pid \<and> d0 \<le> claim_date x \<and> claim_date x \<le> d0 + 7
                \<longrightarrow> claim_date x \<le> claim_date r)
            \<longrightarrow> 5 \<le> patient_claims_7d r \<and> fst (rule_velocity_fraud r) \<and>
                ''VELOCITY_FRAUD'' \<in> set (fst (evaluate r)))"
proof -
  let ?W = "\<lambda>x. patient_id x = pid \<and> d0 \<le> claim_date x \<and> claim_date x \<le> d0 + 7"
  let ?T = "\<lambda>r x. patient_id x = patient_id r \<and> claim_date r - 7 \<le> claim_date x \<and>
                claim_date x \<le> claim_date r"
  have cnt: "patient_claims_7d r = int (length (filter (?T r) df0))" if "r \<in> set rows" for r
  proof -
    from tf that obtain row where "r = enriched ar df0 row" by (rule transform_frame_row)
    then show ?thesis by (simp add: enrich_fields window_count_def)
  qed
  have last: "5 \<le> patient_claims_7d r \<and> fst (rule_velocity_fraud r) \<and>
              ''VELOCITY_FRAUD'' \<in> set (fst (evaluate r))"
    if r: "r \<in> set rows" "patient_id r = pid" "claim_date r \<le> d0 + 7"
      and latest: "\<forall>x \<in> set df0. ?W x \<longrightarrow> claim_date x \<le> claim_date r" for r
  proof -
    have "length (filter ?W df0) \<le> length (filter (?T r) df0)"
    proof (rule length_filter_mono)
      fix x assume "x \<in> set df0" and w: "?W x"
      with latest have "claim_date x \<le> claim_date r" by blast
      with w r show "?T r x" by simp
    qed
    with five have big: "5 \<le> patient_claims_7d r" by (simp add: cnt [OF r(1)])
    then have "fst (rule_velocity_fraud r)" by (simp add: rule_velocity_fraud_def)
    with big show ?thesis by (simp add: velocity_flag)
  qed
  from tf have "mset (map claim.truncate rows) = mset df0"
    by (simp add: transform_frame_claims mset_by_patient_date)
  with cnt last show ?thesis by blast
qed

theorem velocity_latest_claim_witness:
  "transform_frame exact_arith example_population = Inr example_rows \<and>
   example_rows ! 4 \<in> set example_rows \<and>
   claim_id (example_rows ! 4) = ''C00005'' \<and> claim_date (example_rows ! 4) = 14 \<and>
   5 \<le> patient_claims_7d (example_rows ! 4) \<and> fst (rule_velocity_fraud (example_rows ! 4)) \<and>
   example_rows ! 2 \<in> set example_rows \<and> claim_date (example_rows ! 2) = 12 \<and>
   patient_claims_7d (example_rows ! 2) = 3"
proof -
  have five: "5 \<le> length (filter (\<lambda>x. patient_id x = ''P0001'' \<and> 10 \<le> claim_date x \<and>
                                        claim_date x \<le> 10 + 7) example_population)"
    by (simp add: example_population_def example_claim_def)
  note vl = velocity_latest_claim [OF ex_rows five]
  have r4: "example_rows ! 4 \<in> set example_rows" and r2: "example_rows ! 2 \<in> set example_rows"
    by (simp_all add: ex_mem)
  have f: "claim_id (example_rows ! 4) = ''C00005''" "patient_id (example_rows ! 4) = ''P0001''"
    "claim_date (example_rows ! 4) = 14" "patient_id (example_rows ! 2) = ''P0001''"
    "claim_date (example_rows ! 2) = 12"
    by (simp_all add: ex_nth enrich_fields example_sorted_def example_claim_def)
  have latest: "\<forall>x \<in> set example_population. patient_id x = ''P0001'' \<and> 10 \<le> claim_date x \<and>
      claim_date x \<le> 10 + 7 \<longrightarrow> claim_date x \<le> claim_date (example_rows ! 4)"
    by (simp add: f example_population_def example_claim_def)
  from vl r4 have "patient_id (example_rows ! 4) = ''P0001'' \<and> 10 \<le> claim_date (example_rows ! 4) \<and>
      claim_date (example_rows ! 4) \<le> 10 + 7 \<and>
      (\<forall>x \<in> set example_population. patient_id x = ''P0001'' \<and> 10 \<le> claim_date x \<and>
          claim_date x \<le> 10 + 7 \<longrightarrow> claim_date x \<le> claim_date (example_rows ! 4))
      \<longrightarrow> 5 \<le> patient_claims_7d (example_rows ! 4) \<and> fst (rule_velocity_fraud (example_rows ! 4))"
    by blast
  with latest
  have a: "5 \<le> patient_claims_7d (example_rows ! 4) \<and> fst (rule_velocity_fraud (example_rows ! 4))"
    by (simp add: f)
  from vl r2 have "patient_claims_7d (example_rows ! 2) =
      int (length (filter (\<lambda>x. patient_id x = patient_id (example_rows ! 2) \<and>
                                claim_date (example_rows ! 2) - 7 \<le> claim_date x \<and>
                                claim_date x \<le> claim_date (example_rows ! 2)) example_population))"
    by blast
  then have b: "patient_claims_7d (example_rows ! 2) = 3"
    by (simp add: f example_population_def example_claim_def)
  from a b r4 r2 f ex_rows show ?thesis by simp
qed

text \<open>
  The earlier claims of such a patient count only the claims dated up to their own
  date. In the example population patient P0001 has five claims on the days 10 to 14;
  the claim of day 10 has \<open>patient_claims_7d = 1\<close> and does not trigger VELOCITY_FRAUD.
\<close>

theorem velocity_every_claim_counterexample:
  "transform_frame exact_arith example_population = Inr example_rows \<and>
   5 \<le> length (filter (\<lambda>x. patient_id x = ''P0001'' \<and> 10 \<le> claim_date x \<and> claim_date x \<le> 17)
                 example_population) \<and>
   example_rows ! 0 \<in> set example_rows \<and>
   claim_id (example_rows ! 0) = ''C00001'' \<and> patient_id (example_rows ! 0) = ''P0001'' \<and>
   claim_date (example_rows ! 0) = 10 \<and>
   patient_claims_7d (example_rows ! 0) = 1 \<and> \<not> fst (rule_velocity_fraud (example_rows ! 0))"
proof -
  have a: "patient_claims_7d (example_rows ! 0) = 1"
    using arg_cong [OF ex_7d, of "\<lambda>xs. xs ! 0"] by (simp add: ex_len)
  have b: "\<not> fst (rule_velocity_fraud (example_rows ! 0))"
    using arg_cong [OF ex_vel, of "\<lambda>xs. xs ! 0"] by (simp add: ex_len)
  have c: "5 \<le> length (filter (\<lambda>x. patient_id x = ''P0001'' \<and> 10 \<le> claim_date x \<and> claim_date x \<le> 17)
                 example_population)"
    by (simp add: example_population_def example_claim_def)
  have d: "claim_id (example_rows ! 0) = ''C00001''" "patient_id (example_rows ! 0) = ''P0001''"
    "claim_date (example_rows ! 0) = 10"
    by (simp_all add: ex_nth enrich_fields example_sorted_def example_claim_def)
  show ?thesis using a b c d ex_rows ex_mem [of 0] by simp
qed


text \<open>
  C9. For every claim in the enriched set, \<open>1 \<le> patient_claims_7d \<le> patient_claims_30d\<close>,
  \<open>same_day_claim_count \<ge> 1\<close> and \<open>duplicate_count \<ge> 1\<close>: each count includes the claim
  itself, and the window of 7 days lies within the window of 30 days.
\<close>

theorem window_counts_ordered:
  assumes "transform_frame ar df0 = Inr rows" and "r \<in> set rows"
  shows "1 \<le> patient_claims_7d r \<and> patient_claims_7d r \<le> patient_claims_30d r \<and>
         1 \<le> same_day_claim_count r \<and> 1 \<le> duplicate_count r"
proof -
  from assms obtain row where mem: "row \<in> set df0" and r: "r = enriched ar df0 row"
    by (rule transform_frame_row)
  let ?in7 = "\<lambda>x. patient_id x = patient_id row \<and>
       claim_date row - 7 \<le> claim_date x \<and> claim_date x \<le> claim_date row"
  let ?in30 = "\<lambda>x. patient_id x = patient_id row \<and>
       claim_date row - 30 \<le> claim_date x \<and> claim_date x \<le> claim_date row"
  have "1 \<le> window_count 7 df0 row"
    unfolding window_count_def using length_filter_pos [OF mem, of ?in7] by simp
  moreover have "window_count 7 df0 row \<le> window_count 30 df0 row"
    unfolding window_count_def using length_filter_mono [of df0 ?in7 ?in30] by simp
  moreover have "1 \<le> same_day_count df0 row"
    unfolding same_day_count_def
    using length_filter_pos [OF mem, of "\<lambda>x. patient_id x = patient_id row \<and>
       claim_date x = claim_date row"] by simp
  moreover have "1 \<le> duplicate_count_of df0 row"
    unfolding duplicate_count_of_def
    using length_filter_pos [OF mem, of "\<lambda>x. claim_id x = claim_id row"] by simp
  ultimately show ?thesis by (simp add: r enrich_fields)
qed

theorem window_counts_ordered_witness:
  "example_rows ! 2 \<in> set example_rows \<and> patient_claims_7d (example_rows ! 2) = 3 \<and>
   1 \<le> patient_claims_7d (example_rows ! 2) \<and>
   patient_claims_7d (example_rows ! 2) \<le> patient_claims_30d (example_rows ! 2) \<and>
   1 \<le> same_day_claim_count (example_rows ! 2) \<and> 1 \<le> duplicate_count (example_rows ! 2)"
proof -
  have a: "patient_claims_7d (example_rows ! 2) = 3"
    using arg_cong [OF ex_7d, of "\<lambda>xs. xs ! 2"] by (simp add: ex_len)
  from window_counts_ordered [OF ex_rows ex_mem [of 2]] a ex_mem [of 2] show ?thesis by simp
qed

subsection \<open>Z-score\<close>

text \<open>
  Without rounding the z-score column is as the specification describes it: with the
  amounts of the claims of the specialty as \<open>xs\<close>, it is \<open>(claim_amount - mean xs) / s\<close> when
  the sample standard deviation \<open>s\<close> is defined and not zero, and 0 otherwise, since a
  standard deviation of zero means that every amount of the specialty equals the mean,
  so that the division is \<open>0 / 0\<close>, which \<^verbatim>\<open>fillna(0)\<close> replaces.
\<close>

lemma sample_std_zero_all_mean:
  assumes "sample_std xs = 0" and "2 \<le> length xs" and "x \<in> set xs"
  shows "x = mean xs"
proof -
  let ?sq = "map (\<lambda>x. (x - mean xs)\<^sup>2) xs"
  from assms(1) have "sum_list ?sq / real (length xs - 1) = 0"
    by (simp add: sample_std_def)
  moreover from assms(2) have "real (length xs - 1) \<noteq> 0" by simp
  ultimately have "sum_list ?sq = 0" by simp
  moreover have "\<And>y. y \<in> set ?sq \<Longrightarrow> 0 \<le> y" by auto
  ultimately have "\<forall>y \<in> set ?sq. y = 0"
    using sum_list_nonneg_eq_0_iff [of ?sq] by blast
  moreover from assms(3) have "(x - mean xs)\<^sup>2 \<in> set ?sq" by simp
  ultimately have "(x - mean xs)\<^sup>2 = 0" by blast
  then show ?thesis by simp
qed

lemma zscore_exact_arithmetic:
  assumes "transform_frame exact_arith df0 = Inr rows" and "r \<in> set rows"
  shows "let xs = map claim_amount (filter (\<lambda>x. provider_specialty x = provider_specialty r) df0) in
     specialty_avg_amount r = mean xs \<and>
     (2 \<le> length xs \<and> sample_std xs \<noteq> 0 \<longrightarrow>
        specialty_std_amount r = Fin (sample_std xs) \<and>
        amount_zscore r = Fin ((claim_amount r - mean xs) / sample_std xs)) \<and>
     (length xs < 2 \<longrightarrow> specialty_std_amount r = NaN \<and> amount_zscore r = Fin 0) \<and>
     (2 \<le> length xs \<and> sample_std xs = 0 \<longrightarrow> amount_zscore r = Fin 0)"
proof -
  from assms obtain row where row: "row \<in> set df0" and r: "r = enriched exact_arith df0 row"
    by (rule transform_frame_row)
  let ?xs = "map claim_amount (filter (\<lambda>x. provider_specialty x = provider_specialty r) df0)"
  have avg: "specialty_avg_amount r = mean ?xs"
    by (simp add: r enrich_fields group_amounts_def exact_arith_def)
  have sd: "specialty_std_amount r = (if length ?xs < 2 then NaN else Fin (sample_std ?xs))"
    by (simp add: r enrich_fields group_amounts_def exact_arith_def std_def)
  have z: "amount_zscore r =
      fillna 0 (fdiv exact_arith (claim_amount r - mean ?xs)
                  (if length ?xs < 2 then NaN else Fin (sample_std ?xs)))"
    by (simp add: r enrich_fields group_amounts_def exact_arith_def std_def)
  from row have mem: "claim_amount r \<in> set ?xs"
    by (auto simp: r enrich_fields)
  have zero: "amount_zscore r = Fin 0" if "2 \<le> length ?xs" "sample_std ?xs = 0"
  proof -
    from that mem have "claim_amount r = mean ?xs"
      using sample_std_zero_all_mean [of ?xs "claim_amount r"] by simp
    with that show ?thesis by (simp add: z)
  qed
  show ?thesis
    unfolding Let_def using avg zero by (auto simp: sd z exact_arith_def)
qed

text \<open>
  The only guard of the code is \<^verbatim>\<open>fillna(0)\<close>, which replaces NaN and nothing else. Whatever
  the arithmetic, a claim whose specialty has a standard deviation of zero and whose
  amount differs from the mean of the specialty gets an infinite z-score, and
  AMOUNT_ANOMALY triggers on it.
\<close>

lemma zscore_infinite_on_zero_std:
  assumes "transform_frame ar df0 = Inr rows" and "r \<in> set rows"
    and "specialty_std_amount r = Fin 0"
    and "fsub ar (claim_amount r) (specialty_avg_amount r) \<noteq> 0"
  shows "(amount_zscore r = PInf \<or> amount_zscore r = NInf) \<and>
         ''AMOUNT_ANOMALY'' \<in> set (fst (evaluate r))"
proof -
  from assms(1,2) obtain row where r: "r = enriched ar df0 row"
    by (rule transform_frame_row)
  have z: "amount_zscore r =
      fillna 0 (fdiv ar (fsub ar (claim_amount r) (specialty_avg_amount r)) (specialty_std_amount r))"
    by (simp add: r enrich_fields)
  with assms(3,4) have inf: "amount_zscore r = PInf \<or> amount_zscore r = NInf" by auto
  then have "fst (rule_amount_anomaly r)" by (auto simp: rule_amount_anomaly_def)
  with inf show ?thesis by (simp add: amount_anomaly_flag)
qed

subsection \<open>Binary64 arithmetic on three amounts of 0.1\<close>

lemma rnd64_zero: "rnd64 0 = 0"
  by (simp add: rnd64_def)

lemma rnd64_scaled:
  fixes k :: nat
  assumes lo: "2 ^ 52 \<le> \<bar>x\<bar> * 2 ^ k" and hi: "\<bar>x\<bar> * 2 ^ k < 2 ^ 53"
  shows "rnd64 x = of_int (round_half_even (x * 2 ^ k)) / 2 ^ k"
proof -
  from lo have nz: "x \<noteq> 0" by auto
  have k: "(2::real) powr real k = 2 ^ k" by (simp add: powr_realpow)
  have p: "(2::real) powr (of_int (52 - int k)) = 2 ^ 52 / 2 ^ k"
  proof -
    have "(2::real) powr (of_int (52 - int k)) = 2 powr 52 / 2 powr real k"
      by (simp add: powr_diff)
    then show ?thesis by (simp add: k)
  qed
  have q: "(2::real) powr (of_int (52 - int k) + 1) = 2 ^ 53 / 2 ^ k"
  proof -
    have "of_int (52 - int k) + 1 = (53::real) - real k" by simp
    then have "(2::real) powr (of_int (52 - int k) + 1) = 2 powr 53 / 2 powr real k"
      by (simp only: powr_diff)
    then show ?thesis by (simp add: k)
  qed
  have "\<lfloor>log 2 \<bar>x\<bar>\<rfloor> = 52 - int k"
  proof -
    have "2 powr (of_int (52 - int k)) \<le> \<bar>x\<bar>"
      unfolding p using lo by (simp add: field_simps)
    moreover have "\<bar>x\<bar> < 2 powr (of_int (52 - int k) + 1)"
      unfolding q using hi by (simp add: field_simps)
    ultimately show ?thesis using nz by (simp add: floor_log_eq_powr_iff)
  qed
  then have e: "\<lfloor>log 2 \<bar>x\<bar>\<rfloor> - 52 = - int k" by simp
  have r: "(2::real) powr (real_of_int (- int k)) = 1 / 2 ^ k"
    "(2::real) powr (- real_of_int (- int k)) = 2 ^ k"
    by (simp_all add: powr_minus k field_simps)
  have r': "(2::real) powr - real k = 1 / 2 ^ k"
    by (simp add: powr_minus k field_simps)
  show ?thesis using nz by (simp add: rnd64_def Let_def e k r')
qed

lemma tenth_eq: "tenth = 7205759403792794 / 2 ^ 56"
  unfolding tenth_def
  by (subst rnd64_scaled [where k = 56]) (simp_all add: round_half_even_def)


lemma rnd64_tenth: "rnd64 tenth = tenth"
  unfolding tenth_eq
  by (subst rnd64_scaled [where k = 56]) (simp_all add: round_half_even_def)

lemma rnd64_two_tenths: "rnd64 (2 * tenth) = 2 * tenth"
  unfolding tenth_eq
  by (subst rnd64_scaled [where k = 55]) (simp_all add: round_half_even_def)

lemma rnd64_three_tenths: "rnd64 (3 * tenth) = 5404319552844596 / 2 ^ 54"
  unfolding tenth_eq
  by (subst rnd64_scaled [where k = 54]) (simp_all add: round_half_even_def)

lemma rnd64_third: "rnd64 (5404319552844596 / 2 ^ 54 / 3) = 7205759403792795 / 2 ^ 56"
  by (subst rnd64_scaled [where k = 56]) (simp_all add: round_half_even_def)

lemma rnd64_ulp: "rnd64 (tenth - 7205759403792795 / 2 ^ 56) = - (1 / 2 ^ 56)"
  unfolding tenth_eq
  by (subst rnd64_scaled [where k = 108]) (simp_all add: round_half_even_def)

lemma kahan_tenths: "kahan_sum [tenth, tenth, tenth] 0 0 = 5404319552844596 / 2 ^ 54"
  by (simp add: Let_def rnd64_zero rnd64_tenth rnd64_two_tenths rnd64_three_tenths)

lemma f64_mean_tenths: "f64_mean [tenth, tenth, tenth] = 7205759403792795 / 2 ^ 56"
  using rnd64_third unfolding f64_mean_def kahan_tenths by simp

lemma welford_tenths: "welford [tenth, tenth, tenth] 0 0 0 = 0"
  by (simp add: Let_def rnd64_zero rnd64_tenth)

lemma f64_std_tenths: "f64_std [tenth, tenth, tenth] = Fin 0"
  unfolding f64_std_def welford_tenths by (simp add: rnd64_zero)

lemma tenths_ok: "\<not> apply_assign_fails tenths_population"
  by (simp add: apply_assign_fails_def tenths_population_def example_claim_def)

lemma tenths_codes: "list_all has_codes tenths_population"
  by (simp add: has_codes_def tenths_population_def example_claim_def read_cell_def na_values_def)

lemma tenths_sorted: "by_patient_date tenths_population = tenths_population"
  by (simp add: by_patient_date_def tenths_population_def example_claim_def)

lemma tenths_run: "transform_frame float64 tenths_population = Inr tenths_rows"
  using tenths_ok tenths_codes by (simp add: tenths_rows_def rows_of_def transform_frame_eq)

lemma tenths_rows_map: "tenths_rows = map (enriched float64 tenths_population) tenths_population"
  using tenths_ok tenths_codes
  by (simp add: tenths_rows_def rows_of_def transform_frame_eq tenths_sorted)

lemma tenths_group:
  "row \<in> set tenths_population \<Longrightarrow>
   group_amounts provider_specialty tenths_population row = [tenth, tenth, tenth]"
  by (auto simp: group_amounts_def tenths_population_def example_claim_def)

lemma tenths_amount: "row \<in> set tenths_population \<Longrightarrow> claim_amount row = tenth"
  by (auto simp: tenths_population_def example_claim_def)

lemma tenths_row:
  assumes "r \<in> set tenths_rows"
  shows "claim_amount r = tenth \<and> specialty_avg_amount r = 7205759403792795 / 2 ^ 56 \<and>
         specialty_std_amount r = Fin 0 \<and> amount_zscore r = NInf"
proof -
  from assms obtain row where row: "row \<in> set tenths_population"
    and r: "r = enriched float64 tenths_population row"
    by (auto simp: tenths_rows_map)
  have avg: "agg_mean float64 [tenth, tenth, tenth] = 7205759403792795 / 2 ^ 56"
    by (simp add: float64_def f64_mean_tenths)
  have sd: "std float64 [tenth, tenth, tenth] = Fin 0"
    by (simp add: std_def float64_def f64_std_tenths)
  have sub: "fsub float64 tenth (7205759403792795 / 2 ^ 56) = - (1 / 2 ^ 56)"
    using rnd64_ulp by (simp add: float64_def)
  have "amount_zscore r = fillna 0 (fdiv float64 (- (1 / 2 ^ 56)) (Fin 0))"
    unfolding r enrich_fields tenths_group [OF row] tenths_amount [OF row] avg sd sub ..
  then have "amount_zscore r = NInf" by simp
  moreover have "claim_amount r = tenth"
    by (simp add: r enrich_fields tenths_amount [OF row])
  moreover have "specialty_avg_amount r = 7205759403792795 / 2 ^ 56"
    unfolding r enrich_fields tenths_group [OF row] avg ..
  moreover have "specialty_std_amount r = Fin 0"
    unfolding r enrich_fields tenths_group [OF row] sd ..
  ultimately show ?thesis by blast
qed

text \<open>
  C4. The z-score of a claim is to be \<open>(claim_amount - specialty_mean) / specialty_stddev\<close>
  when the standard deviation of the specialty is defined and not zero, and exactly 0
  when it is zero or undefined, never NaN or an infinity. On three claims of 0.1 in one
  specialty the code does otherwise: the standard deviation is exactly 0, the mean is
  \<open>0.10000000000000002\<close>, one unit in the last place above the amounts, the difference is
  not zero, and every one of the three claims gets the z-score \<open>-inf\<close>, which
  \<^verbatim>\<open>fillna(0)\<close> keeps and on which AMOUNT_ANOMALY triggers.
\<close>

theorem zscore_infinite_on_equal_amounts:
  "transform_frame float64 tenths_population = Inr tenths_rows \<and>
   length tenths_rows = 3 \<and>
   map claim_amount tenths_rows = [tenth, tenth, tenth] \<and>
   tenth = 7205759403792794 / 2 ^ 56 \<and>
   map specialty_avg_amount tenths_rows =
     [7205759403792795 / 2 ^ 56, 7205759403792795 / 2 ^ 56, 7205759403792795 / 2 ^ 56] \<and>
   map specialty_std_amount tenths_rows = [Fin 0, Fin 0, Fin 0] \<and>
   map amount_zscore tenths_rows = [NInf, NInf, NInf] \<and>
   list_all (\<lambda>r. ''AMOUNT_ANOMALY'' \<in> set (fst (evaluate r))) tenths_rows"
proof -
  have len: "length tenths_rows = 3"
    by (simp add: tenths_rows_map tenths_population_def)
  then obtain r0 r1 r2 where rows: "tenths_rows = [r0, r1, r2]"
    by (auto simp: numeral_3_eq_3 length_Suc_conv)
  have mem: "r0 \<in> set tenths_rows" "r1 \<in> set tenths_rows" "r2 \<in> set tenths_rows"
    by (simp_all add: rows)
  note f = tenths_row [OF mem(1)] tenths_row [OF mem(2)] tenths_row [OF mem(3)]
  have flag: "''AMOUNT_ANOMALY'' \<in> set (fst (evaluate r))" if "amount_zscore r = NInf" for r
    using that by (simp add: amount_anomaly_flag rule_amount_anomaly_def)
  from f have "list_all (\<lambda>r. ''AMOUNT_ANOMALY'' \<in> set (fst (evaluate r))) tenths_rows"
    by (simp add: rows flag)
  with f len tenths_run tenth_eq show ?thesis by (simp add: rows)
qed

subsection \<open>Code mismatch\<close>

lemma py_split_unfold:
  "py_split sep s =
     (case dropWhile (\<lambda>c. c \<noteq> sep) s of
        [] \<Rightarrow> [s]
      | u # rest \<Rightarrow> takeWhile (\<lambda>c. c \<noteq> sep) s # py_split sep rest)"
proof (induction s)
  case Nil
  show ?case by simp
next
  case (Cons c cs)
  show ?case
  proof (cases "c = sep")
    case True
    then show ?thesis by simp
  next
    case False
    show ?thesis
    proof (cases "dropWhile (\<lambda>c. c \<noteq> sep) cs")
      case Nil
      with Cons have "py_split sep cs = [cs]" by (simp del: dropWhile_eq_Nil_conv)
      with False Nil show ?thesis by (simp del: dropWhile_eq_Nil_conv)
    next
      case (Cons u rest)
      with Cons.IH have "py_split sep cs = takeWhile (\<lambda>c. c \<noteq> sep) cs # py_split sep rest"
        by simp
      with False Cons show ?thesis by simp
    qed
  qed
qed

lemma takeWhile_all: "dropWhile P s = [] \<Longrightarrow> takeWhile P s = s"
  by (metis append_Nil2 takeWhile_dropWhile_id)

lemma py_split_first:
  "\<exists>ts. py_split sep s = takeWhile (\<lambda>c. c \<noteq> sep) s # ts"
proof (cases "dropWhile (\<lambda>c. c \<noteq> sep) s")
  case Nil
  then have "py_split sep s = [s]"
    by (subst py_split_unfold) (simp del: dropWhile_eq_Nil_conv)
  with Nil show ?thesis by (simp add: takeWhile_all del: dropWhile_eq_Nil_conv)
next
  case (Cons u rest)
  then have "py_split sep s = takeWhile (\<lambda>c. c \<noteq> sep) s # py_split sep rest"
    by (subst py_split_unfold) simp
  then show ?thesis by blast
qed

lemma proc_prefix_eq: "proc_prefix p = takeWhile (\<lambda>c. c \<noteq> CHR ''0'') p"
  using py_split_first [of "CHR ''0''" p] by (auto simp: proc_prefix_def)

lemma diag_prefix_eq: "diag_prefix d = first_two_tokens d"
proof (cases "dropWhile (\<lambda>c. c \<noteq> CHR ''_'') d")
  case Nil
  then have "py_split CHR ''_'' d = [d]"
    by (subst py_split_unfold) (simp del: dropWhile_eq_Nil_conv)
  with Nil show ?thesis
    by (simp add: diag_prefix_def first_two_tokens_def takeWhile_all del: dropWhile_eq_Nil_conv)
next
  case (Cons u rest)
  then have u: "u = CHR ''_''" using hd_dropWhile [of "\<lambda>c. c \<noteq> CHR ''_''" d] by simp
  from Cons have 1: "py_split CHR ''_'' d = takeWhile (\<lambda>c. c \<noteq> CHR ''_'') d # py_split CHR ''_'' rest"
    by (subst py_split_unfold) simp
  obtain ts where 2: "py_split CHR ''_'' rest = takeWhile (\<lambda>c. c \<noteq> CHR ''_'') rest # ts"
    using py_split_first by blast
  have "take 2 (py_split CHR ''_'' d) = [takeWhile (\<lambda>c. c \<noteq> CHR ''_'') d, takeWhile (\<lambda>c. c \<noteq> CHR ''_'') rest]"
    using 1 2 by (simp add: numeral_2_eq_2)
  with Cons u show ?thesis by (simp add: diag_prefix_def first_two_tokens_def)
qed

lemma valid_combos_key_underscore:
  "map_of valid_combos k = Some accepted \<Longrightarrow> CHR ''_'' \<in> set k"
  by (auto simp: valid_combos_def split: if_splits)

lemma first_two_tokens_plain: "CHR ''_'' \<notin> set s \<Longrightarrow> first_two_tokens s = s"
proof -
  assume "CHR ''_'' \<notin> set s"
  then have "dropWhile (\<lambda>c. c \<noteq> CHR ''_'') s = []" by auto
  then show ?thesis by (simp add: first_two_tokens_def takeWhile_all del: dropWhile_eq_Nil_conv)
qed

lemma code_mismatch_eq:
  "code_mismatch d p =
     (case map_of valid_combos (first_two_tokens d) of
        Some accepted \<Rightarrow> takeWhile (\<lambda>c. c \<noteq> CHR ''0'') p \<notin> set accepted
      | None \<Rightarrow> False)"
  by (simp add: code_mismatch_def diag_prefix_eq proc_prefix_eq cong: option.case_cong)


text \<open>
  What the flag of an enriched claim is: the first two underscore-delimited tokens of
  the diagnosis code are looked up in the mapping, and the portion of the procedure
  code before its first character \<open>0\<close> (the whole code when it has none) is looked up
  in the accepted set. The flag is the one the specification describes on every
  procedure code whose portion before the first digit is its portion before the
  first \<open>0\<close>.
\<close>

lemma code_mismatch_flag_eq:
  assumes "transform_frame ar df0 = Inr rows" and "r \<in> set rows"
  shows "\<exists>diagnosis procedure.
           diagnosis_code r = Text diagnosis \<and> procedure_code r = Text procedure \<and>
           is_code_mismatch r =
             (case map_of valid_combos (first_two_tokens diagnosis) of
                Some accepted \<Rightarrow> takeWhile (\<lambda>c. c \<noteq> CHR ''0'') procedure \<notin> set accepted
              | None \<Rightarrow> False) \<and>
           (before_first_digit procedure = takeWhile (\<lambda>c. c \<noteq> CHR ''0'') procedure \<longrightarrow>
              is_code_mismatch r = spec_code_mismatch diagnosis procedure)"
proof -
  from assms obtain row where codes: "has_codes row" and r: "r = enriched ar df0 row"
    by (rule transform_frame_row)
  from codes obtain diagnosis procedure
    where d: "diagnosis_code row = Text diagnosis" and p: "procedure_code row = Text procedure"
    by (auto simp: has_codes_def split: cell.splits)
  have flag: "is_code_mismatch r = code_mismatch diagnosis procedure"
    by (simp add: r enrich_fields mismatch_of_def d p)
  have "is_code_mismatch r = spec_code_mismatch diagnosis procedure"
    if "before_first_digit procedure = takeWhile (\<lambda>c. c \<noteq> CHR ''0'') procedure"
    using that by (simp add: flag code_mismatch_eq spec_code_mismatch_def cong: option.case_cong)
  moreover have "diagnosis_code r = Text diagnosis" "procedure_code r = Text procedure"
    by (simp_all add: r enrich_fields d p)
  ultimately show ?thesis using flag by (auto simp: code_mismatch_eq)
qed

text \<open>
  The diagnosis codes that the data generator of the repository emits have one
  underscore only, as \<open>D_CANCER01\<close>: their first two tokens are the whole code, which is
  no key of the mapping, and no procedure code makes such a claim a mismatch.
\<close>

lemma one_underscore_never_flagged:
  "code_mismatch ''D_CANCER01'' procedure = False"
  by (simp add: code_mismatch_eq first_two_tokens_def valid_combos_def)


lemma missing_code_run:
  "transform_frame ar missing_code_population = Inl AttributeError"
proof -
  have "\<not> list_all has_codes missing_code_population"
    by (simp add: missing_code_population_def example_claim_def has_codes_def read_cell_def
        na_values_def)
  moreover have "\<not> apply_assign_fails missing_code_population"
    by code_simp
  ultimately show ?thesis by (simp add: transform_frame_eq)
qed

text \<open>
  C5. The code-mismatch flag of a claim is to be true exactly when the first two
  underscore-delimited tokens of \<open>diagnosis_code\<close> are a known family of the fixed mapping
  and the portion of \<open>procedure_code\<close> before its first digit is not in the accepted set
  of that family, and false for every diagnosis code outside the table, malformed ones
  included. The code departs from this on two inputs. The claim with diagnosis
  \<open>D_HEART_1\<close> and procedure \<open>CARD123\<close> is flagged, since \<^verbatim>\<open>'CARD123'.split('0')[0]\<close> is the
  whole code, although the prefix \<open>CARD\<close> is accepted for \<open>D_HEART\<close>. And on a population
  with a claim whose diagnosis field is empty, \<^verbatim>\<open>diagnosis.split\<close> raises AttributeError
  and \<^verbatim>\<open>transform\<close> produces no flag at all.
\<close>

theorem code_mismatch_splits_on_zero:
  "transform_frame exact_arith example_population = Inr example_rows \<and>
   example_rows ! 2 \<in> set example_rows \<and>
   diagnosis_code (example_rows ! 2) = Text ''D_HEART_1'' \<and>
   procedure_code (example_rows ! 2) = Text ''CARD123'' \<and>
   is_code_mismatch (example_rows ! 2) \<and>
   ''CODE_MISMATCH'' \<in> set (fst (evaluate (example_rows ! 2))) \<and>
   first_two_tokens ''D_HEART_1'' = ''D_HEART'' \<and>
   map_of valid_combos ''D_HEART'' = Some [''CARD''] \<and>
   before_first_digit ''CARD123'' = ''CARD'' \<and>
   \<not> spec_code_mismatch ''D_HEART_1'' ''CARD123'' \<and>
   diagnosis_code (hd missing_code_population) = NotText \<and>
   transform_frame exact_arith missing_code_population = Inl AttributeError"
proof -
  have f: "diagnosis_code (example_rows ! 2) = Text ''D_HEART_1''"
    "procedure_code (example_rows ! 2) = Text ''CARD123''"
    by (simp_all add: ex_nth enrich_fields example_sorted_def example_claim_def read_cell_def
        na_values_def)
  have a: "is_code_mismatch (example_rows ! 2)"
    using arg_cong [OF ex_mm, of "\<lambda>xs. xs ! 2"] by (simp add: ex_len)
  then have a': "''CODE_MISMATCH'' \<in> set (fst (evaluate (example_rows ! 2)))"
    by (simp add: evaluate_flags all_rules_def rule_code_mismatch_def)
  have b: "first_two_tokens ''D_HEART_1'' = ''D_HEART''"
    "map_of valid_combos ''D_HEART'' = Some [''CARD'']"
    "before_first_digit ''CARD123'' = ''CARD''"
    by (simp_all add: first_two_tokens_def before_first_digit_def valid_combos_def)
  then have c: "\<not> spec_code_mismatch ''D_HEART_1'' ''CARD123''"
    by (simp add: spec_code_mismatch_def)
  have d: "diagnosis_code (hd missing_code_population) = NotText"
    by (simp add: missing_code_population_def example_claim_def read_cell_def na_values_def)
  show ?thesis
    using a a' b c d f ex_rows ex_mem [of 2] missing_code_run [of exact_arith] by simp
qed

subsection \<open>Completion of transform\<close>

text \<open>
  C7. On the empty claim population \<^verbatim>\<open>transform\<close> is to complete and produce an empty
  enriched set. The code does not: the assignment of \<open>patient_claims_7d\<close> raises
  ValueError, whatever the arithmetic, because \<^verbatim>\<open>groupby('patient_id').apply\<close> returns a
  frame and not a Series when there is no group. The same happens when there is a
  single group: the five claims of patient P0001 alone, without the claim of P0002
  with which \<^verbatim>\<open>transform\<close> completes, raise ValueError as well.
\<close>

theorem transform_empty_raises:
  "transform_frame ar [] = Inl ValueError \<and>
   assign_column (groupby_apply 16 7 []) = Inl ValueError \<and>
   length (filter (\<lambda>x. patient_id x = ''P0001'') example_population) = 5 \<and>
   transform_frame ar (filter (\<lambda>x. patient_id x = ''P0001'') example_population) = Inl ValueError \<and>
   transform_frame exact_arith example_population = Inr example_rows \<and>
   length example_rows = length example_population"
proof -
  have a: "transform_frame ar [] = Inl ValueError"
    by (simp add: transform_frame_eq assign_fails_iff)
  have b: "assign_column (groupby_apply 16 7 []) = (Inl ValueError :: error + int list)"
    by (simp add: assign_column_groupby apply_assign_fails_def)
  have c: "length (filter (\<lambda>x. patient_id x = ''P0001'') example_population) = 5"
    by (simp add: example_population_def example_claim_def)
  have "apply_assign_fails (filter (\<lambda>x. patient_id x = ''P0001'') example_population)"
    by (simp add: apply_assign_fails_def example_population_def example_claim_def)
  then have d: "transform_frame ar (filter (\<lambda>x. patient_id x = ''P0001'') example_population) =
                  Inl ValueError"
    by (simp add: transform_frame_eq)
  from a b c d ex_rows ex_len ex_pop_len show ?thesis by simp
qed

end
